theory Spec2Isabelle
  imports Complex_Main "HOL-Library.Char_ord" "HOL-Library.List_Lexorder"
begin

section \<open>Text helpers\<close>

text \<open>
  Python strings are modelled as \<^typ>\<open>string\<close>. The request texts and the keyword
  tables of the sources are ASCII; \<open>str.lower()\<close> and \<open>str.upper()\<close> are modelled on
  the ASCII letters and leave every other character alone.
\<close>

definition lower_char :: "char \<Rightarrow> char" where
  "lower_char c =
     (let n = (of_char c :: nat) in if 65 \<le> n \<and> n \<le> 90 then char_of (n + 32) else c)"

definition upper_char :: "char \<Rightarrow> char" where
  "upper_char c =
     (let n = (of_char c :: nat) in if 97 \<le> n \<and> n \<le> 122 then char_of (n - 32) else c)"

definition lower :: "string \<Rightarrow> string" where
  "lower s = map lower_char s"

definition upper :: "string \<Rightarrow> string" where
  "upper s = map upper_char s"

text \<open>\<open>starts_with s k\<close>: the text \<open>s\<close> begins with \<open>k\<close>.\<close>

fun starts_with :: "string \<Rightarrow> string \<Rightarrow> bool" where
  "starts_with s [] = True"
| "starts_with [] (k # ks) = False"
| "starts_with (c # cs) (k # ks) = (c = k \<and> starts_with cs ks)"

text \<open>Python's \<open>k in s\<close> on strings: \<open>k\<close> occurs in \<open>s\<close> as a contiguous piece.\<close>

fun contains :: "string \<Rightarrow> string \<Rightarrow> bool" where
  "contains [] k = (k = [])"
| "contains (c # cs) k = (starts_with (c # cs) k \<or> contains cs k)"

text \<open>\<open>any(keyword in text for keyword in keywords)\<close>.\<close>

definition any_keyword :: "string \<Rightarrow> string list \<Rightarrow> bool" where
  "any_keyword text keywords = list_ex (contains text) keywords"

text \<open>Decimal rendering of a natural number, as an f-string renders an \<open>int\<close>.\<close>

definition digit_char :: "nat \<Rightarrow> char" where
  "digit_char d = char_of (48 + d)"

fun str_nat :: "nat \<Rightarrow> string" where
  "str_nat n = (if n < 10 then [digit_char n] else str_nat (n div 10) @ [digit_char (n mod 10)])"

section \<open>The supervisor's request classifier\<close>

text \<open>
  \<open>analyze_travel_request\<close> of the travel supervisor agent. The result dictionary is a
  record with one field per key; \<open>dependencies\<close> keeps the insertion order of the
  dictionary as an association list.
\<close>

record analysis =
  request_type :: string
  complexity_score :: nat
  priority :: string
  required_agents :: "string list"
  estimated_duration :: string
  key_requirements :: "string list"
  potential_challenges :: "string list"
  recommended_approach :: string
  agent_sequence :: "string list"
  parallel_tasks :: "string list list"
  dependencies :: "(string \<times> string list) list"

definition flight_keywords :: "string list" where
  "flight_keywords = [''flight'', ''fly'', ''airline'', ''airport'', ''departure'', ''arrival'']"

definition hotel_keywords :: "string list" where
  "hotel_keywords = [''hotel'', ''accommodation'', ''stay'', ''room'', ''resort'', ''lodge'']"

definition car_keywords :: "string list" where
  "car_keywords = [''car'', ''rental'', ''drive'', ''vehicle'', ''auto'']"

definition planning_keywords :: "string list" where
  "planning_keywords =
     [''itinerary'', ''plan'', ''destination'', ''attractions'', ''activities'', ''sightseeing'']"

text \<open>
  One keyword check of the classifier: when a keyword of the domain occurs, the agent is
  appended, the request type becomes the domain's name if it still is \<open>general\<close> and
  \<open>multi-service\<close> otherwise, and the complexity score grows by one.
\<close>

definition check_domain ::
  "string \<Rightarrow> string list \<Rightarrow> string \<Rightarrow> string \<Rightarrow> string list \<times> string \<times> nat
     \<Rightarrow> string list \<times> string \<times> nat" where
  "check_domain request_lower keywords agent type_name st =
     (case st of (agents, rtype, score) \<Rightarrow>
        if any_keyword request_lower keywords
        then (agents @ [agent],
              (if rtype = ''general'' then type_name else ''multi-service''),
              score + 1)
        else (agents, rtype, score))"

definition classify :: "string \<Rightarrow> string list \<times> string \<times> nat" where
  "classify request_lower =
     (let st0 = ([], ''general'', 1);
          st1 = check_domain request_lower flight_keywords ''flight-booking-agent'' ''flight'' st0;
          st2 = check_domain request_lower hotel_keywords ''hotel-booking-agent'' ''hotel'' st1;
          st3 = check_domain request_lower car_keywords ''car-rental-agent'' ''car-rental'' st2;
          st4 = check_domain request_lower planning_keywords ''travel-planner-agent'' ''planning'' st3
      in case st4 of (agents, rtype, score) \<Rightarrow>
           if agents = [] then ([''travel-planner-agent''], ''planning'', score)
           else (agents, rtype, score))"

definition analyze_travel_request :: "string \<Rightarrow> analysis" where
  "analyze_travel_request user_request =
     (let request_lower = lower user_request in
      case classify request_lower of (agents, rtype, score) \<Rightarrow>
      let prio =
            (if any_keyword request_lower [''urgent'', ''asap'', ''immediately'', ''emergency'']
             then ''high''
             else if any_keyword request_lower [''flexible'', ''whenever'', ''no rush'']
             then ''low'' else ''medium'');
          duration = str_nat (score * 5) @ ''-'' @ str_nat (score * 10) @ '' minutes'';
          reqs =
            (if contains request_lower ''budget'' \<or> contains request_lower ''cheap''
                \<or> contains request_lower ''expensive''
             then [''Budget considerations''] else [])
            @ (if contains request_lower ''date'' \<or> contains request_lower ''time''
               then [''Specific timing requirements''] else [])
            @ (if contains request_lower ''group'' \<or> contains request_lower ''family''
               then [''Group travel coordination''] else []);
          challenges =
            (if 3 < score then [''Multi-service coordination complexity''] else [])
            @ (if contains request_lower ''international''
               then [''International travel requirements''] else [])
            @ (if prio = ''high'' then [''Time-sensitive booking requirements''] else []);
          has_planner = (''travel-planner-agent'' \<in> set agents);
          seq = (if has_planner then [''travel-planner-agent''] else []);
          parallel_agents = filter (\<lambda>a. a \<noteq> ''travel-planner-agent'') agents;
          deps =
            (if has_planner then [(''travel-planner-agent'', [])] else [])
            @ map (\<lambda>a. (a, if has_planner then [''travel-planner-agent''] else []))
                parallel_agents
      in \<lparr> request_type = rtype,
           complexity_score = score,
           priority = prio,
           required_agents = agents,
           estimated_duration = duration,
           key_requirements = reqs,
           potential_challenges = challenges,
           recommended_approach =
             ''Coordinate '' @ str_nat (length agents) @ '' specialist agents with ''
               @ (if 1 < length seq then ''sequential'' else ''parallel'') @ '' execution'',
           agent_sequence = seq,
           parallel_tasks = (if parallel_agents = [] then [] else [parallel_agents]),
           dependencies = deps \<rparr>)"

section \<open>Values exchanged with the handlers and the store\<close>

text \<open>
  The handlers receive parsed JSON and hand parts of it to the services unchecked, so the
  model keeps a type of JSON values. A Python \<open>dict\<close> is the list of its items, each
  key once. \<open>JNum\<close> is a finite float, given by its exact value; \<open>JNonFinite\<close> is
  one of the three floats that \<open>json.loads\<close> reads from \<open>Infinity\<close>, \<open>-Infinity\<close>
  and \<open>NaN\<close> and that \<open>json.dumps\<close> writes back so.
\<close>

datatype nonfinite = PosInf | NegInf | NaN

datatype json =
    JNull
  | JBool bool
  | JInt int
  | JNum rat
  | JNonFinite nonfinite
  | JStr string
  | JList "json list"
  | JObj "(string \<times> json) list"

type_synonym py_dict = "(string \<times> json) list"

text \<open>\<open>d.get(k, default)\<close>.\<close>

definition dict_get :: "py_dict \<Rightarrow> string \<Rightarrow> json \<Rightarrow> json" where
  "dict_get d k dflt = (case map_of d k of None \<Rightarrow> dflt | Some v \<Rightarrow> v)"

text \<open>
  Exceptions carry their message. The handlers only tell \<open>ValueError\<close> from every
  other exception; the messages of exceptions raised by the Python runtime are outside
  this model and are the fixed texts below.
\<close>

datatype py_exn =
    ValueError string
  | TypeError string
  | AttributeError string
  | OverflowError string
  | OtherError string

fun exn_text :: "py_exn \<Rightarrow> string" where
  "exn_text (ValueError m) = m"
| "exn_text (TypeError m) = m"
| "exn_text (AttributeError m) = m"
| "exn_text (OverflowError m) = m"
| "exn_text (OtherError m) = m"

fun is_value_error :: "py_exn \<Rightarrow> bool" where
  "is_value_error (ValueError m) = True"
| "is_value_error e = False"

text \<open>\<open>len(x)\<close>: defined on lists, dictionaries and strings, a \<open>TypeError\<close> otherwise.\<close>

fun py_len :: "json \<Rightarrow> py_exn + int" where
  "py_len (JList xs) = Inr (int (length xs))"
| "py_len (JObj kvs) = Inr (int (length kvs))"
| "py_len (JStr s) = Inr (int (length s))"
| "py_len v = Inl (TypeError ''object has no len()'')"

section \<open>Floats\<close>

text \<open>
  Prices are REAL columns and Python floats, that is IEEE doubles. A finite double is
  modelled by its exact rational value (the two zeros are not told apart, as \<open>==\<close>
  does not tell them apart), and an operation on doubles is the exact operation followed
  by rounding to the nearest double, ties to the even mantissa.

  \<open>bit_length n\<close> is the number of binary digits of \<open>n\<close>, \<open>pow2 e\<close> is \<open>2\<close> to
  the power \<open>e\<close>, and \<open>floor_log2 a\<close>, for positive \<open>a\<close>, is the \<open>k\<close> with
  \<open>2^k \<le> a < 2^(k+1)\<close>.
\<close>

datatype pyfloat = Finite rat | NonFinite nonfinite

fun bit_length :: "nat \<Rightarrow> nat" where
  "bit_length n = (if n = 0 then 0 else Suc (bit_length (n div 2)))"

definition pow2 :: "int \<Rightarrow> rat" where
  "pow2 e = (if 0 \<le> e then 2 ^ nat e else 1 / 2 ^ nat (- e))"

definition floor_log2 :: "rat \<Rightarrow> int" where
  "floor_log2 a =
     (if 1 \<le> a then int (bit_length (nat \<lfloor>a\<rfloor>)) - 1
      else let k = int (bit_length (nat \<lfloor>1 / a\<rfloor>)) - 1
           in if pow2 (- k) \<le> a then - k else - k - 1)"

definition round_half_even :: "rat \<Rightarrow> int" where
  "round_half_even q =
     (let f = \<lfloor>q\<rfloor>; d = q - of_int f
      in if d < 1 / 2 then f else if 1 / 2 < d then f + 1 else if even f then f else f + 1)"

text \<open>
  A double has a mantissa of 53 bits and an exponent of at least \<open>-1074\<close>; a magnitude
  that rounds to \<open>2^1024\<close> or more is an infinity.
\<close>

definition double_exponent :: "rat \<Rightarrow> int" where
  "double_exponent a = max (floor_log2 a - 52) (- 1074)"

definition double_mantissa :: "rat \<Rightarrow> int \<Rightarrow> int" where
  "double_mantissa a e = round_half_even (a / pow2 e)"

definition to_double :: "rat \<Rightarrow> pyfloat" where
  "to_double r =
     (if r = 0 then Finite 0
      else let a = \<bar>r\<bar>;
               e = double_exponent a;
               v = of_int (double_mantissa a e) * pow2 e
           in if 2 ^ 1024 \<le> v then NonFinite (if 0 < r then PosInf else NegInf)
              else Finite (if 0 < r then v else - v))"

text \<open>The product of two floats.\<close>

fun negate :: "nonfinite \<Rightarrow> nonfinite" where
  "negate PosInf = NegInf"
| "negate NegInf = PosInf"
| "negate NaN = NaN"

definition nonfinite_times :: "nonfinite \<Rightarrow> rat \<Rightarrow> pyfloat" where
  "nonfinite_times x a =
     (if a = 0 then NonFinite NaN else if 0 < a then NonFinite x else NonFinite (negate x))"

fun nonfinite_product :: "nonfinite \<Rightarrow> nonfinite \<Rightarrow> nonfinite" where
  "nonfinite_product NaN y = NaN"
| "nonfinite_product PosInf y = y"
| "nonfinite_product NegInf y = negate y"

fun fmul :: "pyfloat \<Rightarrow> pyfloat \<Rightarrow> pyfloat" where
  "fmul (Finite a) (Finite b) = to_double (a * b)"
| "fmul (Finite a) (NonFinite y) = nonfinite_times y a"
| "fmul (NonFinite x) (Finite b) = nonfinite_times x b"
| "fmul (NonFinite x) (NonFinite y) = NonFinite (nonfinite_product x y)"

text \<open>
  An \<open>int\<close> that meets a float in a product is converted to a float first, which
  fails when it rounds beyond the largest double.
\<close>

definition int_to_float :: "int \<Rightarrow> py_exn + pyfloat" where
  "int_to_float n =
     (if 2 ^ 1024 - 2 ^ 970 \<le> \<bar>n\<bar>
      then Inl (OverflowError ''int too large to convert to float'')
      else Inr (to_double (of_int n)))"

text \<open>A float as a JSON value.\<close>

fun float_json :: "pyfloat \<Rightarrow> json" where
  "float_json (Finite r) = JNum r"
| "float_json (NonFinite x) = JNonFinite x"

text \<open>A number used as a factor of a price; \<open>bool\<close> is a subclass of \<open>int\<close>.\<close>

fun py_number :: "json \<Rightarrow> py_exn + pyfloat" where
  "py_number (JInt i) = int_to_float i"
| "py_number (JNum r) = Inr (Finite r)"
| "py_number (JNonFinite x) = Inr (NonFinite x)"
| "py_number (JBool b) = Inr (Finite (if b then 1 else 0))"
| "py_number v = Inl (TypeError ''unsupported operand type(s) for *'')"

section \<open>Binding values to SQL statements\<close>

text \<open>
  Values the SQLite driver binds to a \<open>?\<close> placeholder: \<open>None\<close>, integers, floats
  and text. An integer outside the signed 64 bits of an SQLite INTEGER is refused with an
  \<open>OverflowError\<close>, a list or a dictionary with another exception; a NaN is bound as
  NULL.
\<close>

definition in_int64 :: "int \<Rightarrow> bool" where
  "in_int64 i = (- (2 ^ 63) \<le> i \<and> i < 2 ^ 63)"

definition too_large :: py_exn where
  "too_large = OverflowError ''Python int too large to convert to SQLite INTEGER''"

definition bind_int :: "int \<Rightarrow> py_exn + int" where
  "bind_int i = (if in_int64 i then Inr i else Inl too_large)"

datatype sqlval = SqlNull | SqlInt int | SqlReal rat | SqlInf bool | SqlText string

fun to_sql :: "json \<Rightarrow> py_exn + sqlval" where
  "to_sql JNull = Inr SqlNull"
| "to_sql (JBool b) = Inr (SqlInt (if b then 1 else 0))"
| "to_sql (JInt i) = (if in_int64 i then Inr (SqlInt i) else Inl too_large)"
| "to_sql (JNum r) = Inr (SqlReal r)"
| "to_sql (JNonFinite NaN) = Inr SqlNull"
| "to_sql (JNonFinite PosInf) = Inr (SqlInf True)"
| "to_sql (JNonFinite NegInf) = Inr (SqlInf False)"
| "to_sql (JStr s) = Inr (SqlText s)"
| "to_sql v = Inl (OtherError ''Error binding parameter: type is not supported'')"

text \<open>
  SQLite's \<open>LIKE\<close>: \<open>%\<close> matches any run of characters, \<open>_\<close> any single character,
  and ASCII letters match without regard to case. The pattern comes first.
\<close>

fun sql_like :: "string \<Rightarrow> string \<Rightarrow> bool" where
  "sql_like [] t = (t = [])"
| "sql_like (p # ps) [] = (p = CHR ''%'' \<and> sql_like ps [])"
| "sql_like (p # ps) (c # cs) =
     (if p = CHR ''%'' then sql_like ps (c # cs) \<or> sql_like (p # ps) cs
      else (p = CHR ''_'' \<or> lower_char p = lower_char c) \<and> sql_like ps cs)"

text \<open>
  The row id SQLite gives an inserted row: one more than the largest id of the table,
  and 1 in an empty table.
\<close>

fun next_rowid :: "int list \<Rightarrow> int" where
  "next_rowid [] = 1"
| "next_rowid (i # ids) = fold max ids i + 1"

section \<open>The store\<close>

text \<open>
  Every table is the list of its rows, in insertion order, and a row is a record of the
  columns that the modelled statements read or write. The table definitions themselves
  (\<open>schema.sql\<close>) are not among the sources: the tables are modelled without
  constraints, so an \<open>INSERT\<close> always appends a row. The one column default that the
  code reads back, the currency of a flight booking, is carried by the store. A column
  name that several tables share is prefixed in all but one of them. The prices of the
  catalogue tables are finite floats, given by their exact values; a computed total is a
  float that may be infinite or NaN (which SQLite stores as NULL).
\<close>

record airline =
  airline_id :: int
  airline_code :: string
  airline_name :: string

record airport =
  airport_id :: int
  airport_code :: string
  city :: string

record flight =
  flight_id :: int
  flight_number :: string
  flight_airline_id :: int
  origin_airport_id :: int
  destination_airport_id :: int
  departure_time :: string
  arrival_time :: string
  aircraft_type :: string
  total_seats :: int
  available_seats :: int
  base_price :: rat
  currency :: string

record flight_booking =
  booking_id :: int
  user_id :: sqlval
  booked_flight_id :: int
  booking_reference :: string
  passenger_count :: int
  total_price :: pyfloat
  booking_currency :: "string option"
  special_requests :: json
  booking_status :: string

record hotel =
  hotel_id :: int
  hotel_name :: string
  hotel_city :: string
  hotel_country :: string
  hotel_total_rooms :: int
  hotel_active :: int

record room_type =
  room_type_id :: int
  room_hotel_id :: int
  room_type_name :: string
  max_occupancy :: int
  base_price_per_night :: rat
  room_currency :: string
  room_total_rooms :: int
  room_active :: int

record hotel_booking =
  hb_booking_id :: int
  hb_user_id :: sqlval
  hb_hotel_id :: int
  hb_room_type_id :: int
  hb_booking_reference :: string
  check_in_date :: string
  check_out_date :: string
  guest_count :: int
  room_count :: sqlval
  total_nights :: int
  price_per_night :: rat
  hb_total_price :: pyfloat
  hb_special_requests :: json
  guest_names :: json
  hb_booking_status :: string

record vehicle =
  vehicle_id :: int
  vehicle_location_id :: int
  daily_rate :: rat
  vehicle_currency :: string
  availability_status :: string

record car_rental_booking =
  cb_booking_id :: int
  cb_user_id :: sqlval
  cb_vehicle_id :: int
  pickup_location_id :: int
  dropoff_location_id :: int
  cb_booking_reference :: string
  pickup_date :: string
  dropoff_date :: string
  rental_days :: int
  cb_daily_rate :: rat
  cb_total_price :: pyfloat
  driver_license_number :: sqlval
  cb_booking_status :: string

record db =
  airlines :: "airline list"
  airports :: "airport list"
  flights :: "flight list"
  flight_bookings :: "flight_booking list"
  flight_bookings_default_currency :: "string option"
  hotels :: "hotel list"
  room_types :: "room_type list"
  hotel_bookings :: "hotel_booking list"
  available_vehicles :: "vehicle list"
  car_rental_bookings :: "car_rental_booking list"

text \<open>
  What a call takes from outside the repository: SQLite's \<open>DATE()\<close> on a text
  (\<open>None\<close> for SQL NULL), \<open>json.loads\<close> (\<open>None\<close> for a \<open>JSONDecodeError\<close>),
  Python's \<open>str()\<close> of a float and of a dictionary, as an f-string renders them, and
  the clock, read as \<open>datetime.now().strftime('%Y%m%d%H%M%S')\<close> by the services and
  as \<open>datetime.now().isoformat()\<close> by the handlers.
\<close>

record env =
  sql_date :: "string \<Rightarrow> string option"
  json_loads :: "string \<Rightarrow> json option"
  str_float :: "pyfloat \<Rightarrow> string"
  str_dict :: "py_dict \<Rightarrow> string"
  now_stamp :: string
  now_iso :: string

text \<open>
  The result dictionary of a service method: \<open>{'success': False, 'error': msg}\<close> or
  \<open>{'success': True, ...}\<close> with the keys of the method. A raised exception is kept
  apart from both: every service call returns \<open>(exception + result, store)\<close>, the store
  being the one left behind, since every statement commits on its own.
\<close>

datatype 'a outcome = Failure string | Success 'a

section \<open>FlightService\<close>

record flight_confirmation =
  fc_booking_id :: int
  fc_booking_reference :: string
  fc_total_price :: pyfloat
  fc_currency :: string

text \<open>
  \<open>SELECT * FROM flights WHERE flight_id = ?\<close>: the rows the statement returns once
  its parameter is bound. Where the parameter comes from a caller, the method binds it
  with \<open>bind_int\<close> first; inside a join the id compared is a stored one.
\<close>

definition select_flights :: "db \<Rightarrow> int \<Rightarrow> flight list" where
  "select_flights d fid = filter (\<lambda>f. flight_id f = fid) (flights d)"

text \<open>\<open>UPDATE flights SET available_seats = available_seats + ? WHERE flight_id = ?\<close>;
  the decrement of \<open>book_flight\<close> is the same statement with the count negated.\<close>

definition add_seats :: "int \<Rightarrow> int \<Rightarrow> db \<Rightarrow> db" where
  "add_seats n fid d =
     d\<lparr>flights :=
          map (\<lambda>f. if flight_id f = fid then f\<lparr>available_seats := available_seats f + n\<rparr> else f)
            (flights d)\<rparr>"

definition insert_flight_booking :: "flight_booking \<Rightarrow> db \<Rightarrow> db" where
  "insert_flight_booking b d = d\<lparr>flight_bookings := flight_bookings d @ [b]\<rparr>"

text \<open>
  \<open>book_flight\<close>. The flight id is bound by the first query, the user id by the
  \<open>INSERT\<close>. The passenger count is a length: it is far below \<open>2^63\<close>, so that
  binding it and converting it to a float cannot fail. The total is the product of two
  floats.
\<close>

definition book_flight ::
  "env \<Rightarrow> db \<Rightarrow> json \<Rightarrow> int \<Rightarrow> py_dict \<Rightarrow> (py_exn + flight_confirmation outcome) \<times> db" where
  "book_flight e d uid fid passenger_details =
     (let booking_ref = ''FL'' @ now_stamp e in
      case bind_int fid of
        Inl ex \<Rightarrow> (Inl ex, d)
      | Inr _ \<Rightarrow>
      (case select_flights d fid of
        [] \<Rightarrow> (Inr (Failure ''Flight not found''), d)
      | flight # _ \<Rightarrow>
          (case py_len (dict_get passenger_details ''passengers'' (JList [])) of
             Inl ex \<Rightarrow> (Inl ex, d)
           | Inr count \<Rightarrow>
               if available_seats flight < count
               then (Inr (Failure ''Insufficient seats available''), d)
               else
                 let total = fmul (Finite (base_price flight)) (to_double (of_int count)) in
                 (case to_sql uid of
                    Inl ex \<Rightarrow> (Inl ex, d)
                  | Inr u \<Rightarrow>
                      let new_id = next_rowid (map booking_id (flight_bookings d));
                          d1 = insert_flight_booking
                                 \<lparr> booking_id = new_id, user_id = u, booked_flight_id = fid,
                                   booking_reference = booking_ref, passenger_count = count,
                                   total_price = total,
                                   booking_currency = flight_bookings_default_currency d,
                                   special_requests =
                                     dict_get passenger_details ''special_requests'' (JList []),
                                   booking_status = ''CONFIRMED'' \<rparr> d;
                          d2 = add_seats (- count) fid d1
                      in (Inr (Success \<lparr> fc_booking_id = new_id,
                                         fc_booking_reference = booking_ref,
                                         fc_total_price = total,
                                         fc_currency = currency flight \<rparr>), d2)))))"

record flight_refund =
  refund_amount :: pyfloat
  refund_currency :: "string option"

text \<open>
  \<open>SELECT fb.*, f.available_seats, f.flight_id FROM flight_bookings fb
  JOIN flights f ON fb.flight_id = f.flight_id WHERE fb.booking_reference = ?\<close>
\<close>

definition select_booking_with_flight :: "db \<Rightarrow> string \<Rightarrow> (flight_booking \<times> flight) list" where
  "select_booking_with_flight d ref =
     concat (map (\<lambda>b. map (\<lambda>f. (b, f)) (select_flights d (booked_flight_id b)))
               (filter (\<lambda>b. booking_reference b = ref) (flight_bookings d)))"

text \<open>\<open>UPDATE flight_bookings SET booking_status = 'CANCELLED' WHERE booking_reference = ?\<close>\<close>

definition mark_cancelled :: "string \<Rightarrow> db \<Rightarrow> db" where
  "mark_cancelled ref d =
     d\<lparr>flight_bookings :=
          map (\<lambda>b. if booking_reference b = ref then b\<lparr>booking_status := ''CANCELLED''\<rparr> else b)
            (flight_bookings d)\<rparr>"

definition cancel_flight :: "db \<Rightarrow> string \<Rightarrow> flight_refund outcome \<times> db" where
  "cancel_flight d ref =
     (case select_booking_with_flight d ref of
        [] \<Rightarrow> (Failure ''Booking not found'', d)
      | (booking, f) # _ \<Rightarrow>
          if booking_status booking = ''CANCELLED''
          then (Failure ''Booking already cancelled'', d)
          else
            let d1 = mark_cancelled ref d;
                d2 = add_seats (passenger_count booking) (flight_id f) d1
            in (Success \<lparr> refund_amount = total_price booking,
                          refund_currency = booking_currency booking \<rparr>, d2))"

section \<open>Dates and times\<close>

text \<open>
  \<open>datetime.strptime\<close> with the two formats the services use. The format is turned
  into a regular expression by the library: \<open>%Y\<close> is four digits, the other fields
  are one or two digits within the field's range, \<open>%d\<close> may also be a space and one
  digit, the blank of the format is one or more whitespace characters, and the whole
  text must be consumed. Every failure, also a date that does not exist, is a
  \<open>ValueError\<close>.
\<close>

definition is_digit :: "char \<Rightarrow> bool" where
  "is_digit c = (48 \<le> (of_char c :: nat) \<and> (of_char c :: nat) \<le> 57)"

definition is_space :: "char \<Rightarrow> bool" where
  "is_space c =
     (let n = (of_char c :: nat)
      in (9 \<le> n \<and> n \<le> 13) \<or> (28 \<le> n \<and> n \<le> 32) \<or> n = 133 \<or> n = 160)"

definition digits_value :: "string \<Rightarrow> nat" where
  "digits_value s = fold (\<lambda>c n. 10 * n + ((of_char c :: nat) - 48)) s 0"

text \<open>A field of one or two digits whose value lies between \<open>lo\<close> and \<open>hi\<close>.\<close>

definition number_field :: "nat \<Rightarrow> nat \<Rightarrow> string \<Rightarrow> nat option" where
  "number_field lo hi s =
     (if s \<noteq> [] \<and> length s \<le> 2 \<and> list_all is_digit s
         \<and> lo \<le> digits_value s \<and> digits_value s \<le> hi
      then Some (digits_value s) else None)"

text \<open>The day field: a space and one digit from 1 to 9, or a number from 1 to 31.\<close>

definition day_field :: "string \<Rightarrow> nat option" where
  "day_field s =
     (case s of
        c # cs \<Rightarrow> if c = CHR '' '' then (if length cs = 1 then number_field 1 9 cs else None)
                  else number_field 1 31 s
      | [] \<Rightarrow> None)"

record py_date =
  year :: nat
  month :: nat
  day :: nat

definition is_leap :: "nat \<Rightarrow> bool" where
  "is_leap y = (y mod 4 = 0 \<and> (y mod 100 \<noteq> 0 \<or> y mod 400 = 0))"

definition days_in_month :: "nat \<Rightarrow> nat \<Rightarrow> nat" where
  "days_in_month y m =
     (if m = 2 then (if is_leap y then 29 else 28)
      else if m = 4 \<or> m = 6 \<or> m = 9 \<or> m = 11 then 30 else 31)"

definition days_before_year :: "nat \<Rightarrow> nat" where
  "days_before_year y = (y - 1) * 365 + (y - 1) div 4 - (y - 1) div 100 + (y - 1) div 400"

definition days_before_month :: "nat \<Rightarrow> nat \<Rightarrow> nat" where
  "days_before_month y m = sum_list (map (days_in_month y) [1..<m])"

text \<open>\<open>date.toordinal()\<close>: the day number in the proleptic Gregorian calendar.\<close>

definition toordinal :: "py_date \<Rightarrow> int" where
  "toordinal dt =
     int (days_before_year (year dt) + days_before_month (year dt) (month dt) + day dt)"

text \<open>The constructor \<open>date(y, m, d)\<close>, which checks the ranges.\<close>

definition make_date :: "nat \<Rightarrow> nat \<Rightarrow> nat \<Rightarrow> py_exn + py_date" where
  "make_date y m d =
     (if y < 1 then Inl (ValueError ''year is out of range'')
      else if m < 1 \<or> 12 < m then Inl (ValueError ''month must be in 1..12'')
      else if d < 1 \<or> days_in_month y m < d then Inl (ValueError ''day is out of range for month'')
      else Inr \<lparr> year = y, month = m, day = d \<rparr>)"

definition no_match :: py_exn where
  "no_match = ValueError ''time data does not match format''"

text \<open>
  The part \<open>%Y-%m-\<close> common to both formats: the year, the month and the text after
  the second dash.
\<close>

definition year_month_prefix :: "string \<Rightarrow> (nat \<times> nat \<times> string) option" where
  "year_month_prefix s =
     (let y = takeWhile is_digit s; r1 = dropWhile is_digit s in
      if length y \<noteq> 4 then None
      else case r1 of
        [] \<Rightarrow> None
      | c1 # r1' \<Rightarrow>
          if c1 \<noteq> CHR ''-'' then None
          else
            let m = takeWhile is_digit r1'; r2 = dropWhile is_digit r1' in
            (case r2 of
               [] \<Rightarrow> None
             | c2 # r2' \<Rightarrow>
                 if c2 \<noteq> CHR ''-'' then None
                 else (case number_field 1 12 m of
                         None \<Rightarrow> None
                       | Some mv \<Rightarrow> Some (digits_value y, mv, r2'))))"

text \<open>\<open>datetime.strptime(s, '%Y-%m-%d').date()\<close>\<close>

definition strptime_date :: "string \<Rightarrow> py_exn + py_date" where
  "strptime_date s =
     (case year_month_prefix s of
        None \<Rightarrow> Inl no_match
      | Some (y, m, rest) \<Rightarrow>
          (case day_field rest of
             None \<Rightarrow> Inl no_match
           | Some d \<Rightarrow> make_date y m d))"

text \<open>
  \<open>datetime.strptime(s, '%Y-%m-%d %H:%M:%S')\<close>: the date and the second of the day.
  The pattern admits seconds up to 61; the constructor then refuses 60 and 61.
\<close>

record py_datetime =
  date_part :: py_date
  second_of_day :: nat

definition time_of_day :: "string \<Rightarrow> nat option" where
  "time_of_day s =
     (let h = takeWhile is_digit s; r1 = dropWhile is_digit s in
      case r1 of
        [] \<Rightarrow> None
      | c1 # r1' \<Rightarrow>
          if c1 \<noteq> CHR '':'' then None
          else
            let mi = takeWhile is_digit r1'; r2 = dropWhile is_digit r1' in
            (case r2 of
               [] \<Rightarrow> None
             | c2 # r2' \<Rightarrow>
                 if c2 \<noteq> CHR '':'' then None
                 else (case (number_field 0 23 h, number_field 0 59 mi, number_field 0 61 r2') of
                         (Some hv, Some mv, Some sv) \<Rightarrow>
                           if 59 < sv then None else Some (hv * 3600 + mv * 60 + sv)
                       | _ \<Rightarrow> None)))"

definition strptime_datetime :: "string \<Rightarrow> py_exn + py_datetime" where
  "strptime_datetime s =
     (case year_month_prefix s of
        None \<Rightarrow> Inl no_match
      | Some (y, m, rest) \<Rightarrow>
          let d = (case rest of
                     c # cs \<Rightarrow> if c = CHR '' '' then take 2 rest else takeWhile is_digit rest
                   | [] \<Rightarrow> []);
              after_day = drop (length d) rest;
              clock = dropWhile is_space after_day
          in if after_day = clock then Inl no_match
             else (case (day_field d, time_of_day clock) of
                     (Some dv, Some secs) \<Rightarrow>
                       (case make_date y m dv of
                          Inl ex \<Rightarrow> Inl ex
                        | Inr dt \<Rightarrow> Inr \<lparr> date_part = dt, second_of_day = secs \<rparr>)
                   | _ \<Rightarrow> Inl no_match))"

text \<open>
  \<open>(b - a).days\<close> for two datetimes: the difference of the day numbers plus the
  difference of the seconds of the day, floor-divided by the seconds of a day.
\<close>

definition timedelta_days :: "py_datetime \<Rightarrow> py_datetime \<Rightarrow> int" where
  "timedelta_days a b =
     (toordinal (date_part b) - toordinal (date_part a))
       + (int (second_of_day b) - int (second_of_day a)) div 86400"

section \<open>HotelService\<close>

record hotel_confirmation =
  hc_booking_id :: int
  hc_booking_reference :: string
  hc_total_price :: pyfloat
  hc_currency :: string
  hc_nights :: int

text \<open>\<open>SELECT * FROM room_types WHERE room_type_id = ?\<close>\<close>

definition select_room_types :: "db \<Rightarrow> int \<Rightarrow> room_type list" where
  "select_room_types d rid = filter (\<lambda>r. room_type_id r = rid) (room_types d)"

text \<open>
  \<open>book_hotel\<close>. The room type id is bound by the query; the \<open>INSERT\<close> binds the
  user id, the hotel id and the room count, in this order. The number of nights is a
  difference of day numbers and the guest count a length, both far below \<open>2^63\<close>. The
  total is \<open>(price * nights) * room_count\<close> in floats, rounded after each product.
\<close>

definition book_hotel ::
  "env \<Rightarrow> db \<Rightarrow> json \<Rightarrow> int \<Rightarrow> int \<Rightarrow> string \<Rightarrow> string \<Rightarrow> py_dict
     \<Rightarrow> (py_exn + hotel_confirmation outcome) \<times> db" where
  "book_hotel e d uid hid rid check_in_text check_out_text guest_details =
     (let booking_ref = ''HT'' @ now_stamp e in
      case strptime_date check_in_text of
        Inl ex \<Rightarrow> (Inl ex, d)
      | Inr check_in \<Rightarrow>
      (case strptime_date check_out_text of
        Inl ex \<Rightarrow> (Inl ex, d)
      | Inr check_out \<Rightarrow>
      let nights = toordinal check_out - toordinal check_in in
      (case bind_int rid of
        Inl ex \<Rightarrow> (Inl ex, d)
      | Inr _ \<Rightarrow>
      (case select_room_types d rid of
        [] \<Rightarrow> (Inr (Failure ''Room type not found''), d)
      | room # _ \<Rightarrow>
      (case py_len (dict_get guest_details ''guests'' (JList [])) of
        Inl ex \<Rightarrow> (Inl ex, d)
      | Inr guests \<Rightarrow>
      let room_value = dict_get guest_details ''room_count'' (JInt 1) in
      (case py_number room_value of
        Inl ex \<Rightarrow> (Inl ex, d)
      | Inr rooms \<Rightarrow>
      let total = fmul (fmul (Finite (base_price_per_night room)) (to_double (of_int nights)))
                    rooms in
      (case to_sql uid of
        Inl ex \<Rightarrow> (Inl ex, d)
      | Inr u \<Rightarrow>
      (case bind_int hid of
        Inl ex \<Rightarrow> (Inl ex, d)
      | Inr _ \<Rightarrow>
      (case to_sql room_value of
        Inl ex \<Rightarrow> (Inl ex, d)
      | Inr stored_rooms \<Rightarrow>
      let new_id = next_rowid (map hb_booking_id (hotel_bookings d));
          d1 = d\<lparr>hotel_bookings := hotel_bookings d @
                 [\<lparr> hb_booking_id = new_id, hb_user_id = u, hb_hotel_id = hid,
                    hb_room_type_id = rid, hb_booking_reference = booking_ref,
                    check_in_date = check_in_text, check_out_date = check_out_text,
                    guest_count = guests, room_count = stored_rooms, total_nights = nights,
                    price_per_night = base_price_per_night room, hb_total_price = total,
                    hb_special_requests = dict_get guest_details ''special_requests'' (JList []),
                    guest_names = dict_get guest_details ''guests'' (JList []),
                    hb_booking_status = ''CONFIRMED'' \<rparr>]\<rparr>
      in (Inr (Success \<lparr> hc_booking_id = new_id, hc_booking_reference = booking_ref,
                         hc_total_price = total, hc_currency = room_currency room,
                         hc_nights = nights \<rparr>), d1))))))))))"

section \<open>CarRentalService\<close>

record car_confirmation =
  cc_booking_id :: int
  cc_booking_reference :: string
  cc_total_price :: pyfloat
  cc_currency :: string
  cc_rental_days :: int

text \<open>\<open>SELECT * FROM available_vehicles WHERE vehicle_id = ?\<close>\<close>

definition select_vehicles :: "db \<Rightarrow> int \<Rightarrow> vehicle list" where
  "select_vehicles d vid = filter (\<lambda>v. vehicle_id v = vid) (available_vehicles d)"

text \<open>\<open>UPDATE available_vehicles SET availability_status = 'RENTED' WHERE vehicle_id = ?\<close>\<close>

definition mark_rented :: "int \<Rightarrow> db \<Rightarrow> db" where
  "mark_rented vid d =
     d\<lparr>available_vehicles :=
          map (\<lambda>v. if vehicle_id v = vid then v\<lparr>availability_status := ''RENTED''\<rparr> else v)
            (available_vehicles d)\<rparr>"

text \<open>
  \<open>book_car\<close>. The vehicle id is bound by the query; the \<open>INSERT\<close> binds the user
  id, the two location ids and the license number, in this order. The rental days are
  a difference of day numbers, far below \<open>2^63\<close>. The total is the product of two
  floats.
\<close>

definition book_car ::
  "env \<Rightarrow> db \<Rightarrow> json \<Rightarrow> int \<Rightarrow> int \<Rightarrow> int \<Rightarrow> string \<Rightarrow> string \<Rightarrow> py_dict
     \<Rightarrow> (py_exn + car_confirmation outcome) \<times> db" where
  "book_car e d uid vid pickup_loc dropoff_loc pickup_text dropoff_text driver_details =
     (let booking_ref = ''CR'' @ now_stamp e in
      case strptime_datetime pickup_text of
        Inl ex \<Rightarrow> (Inl ex, d)
      | Inr pickup \<Rightarrow>
      (case strptime_datetime dropoff_text of
        Inl ex \<Rightarrow> (Inl ex, d)
      | Inr dropoff \<Rightarrow>
      let days = max 1 (timedelta_days pickup dropoff) in
      (case bind_int vid of
        Inl ex \<Rightarrow> (Inl ex, d)
      | Inr _ \<Rightarrow>
      (case select_vehicles d vid of
        [] \<Rightarrow> (Inr (Failure ''Vehicle not found''), d)
      | v # _ \<Rightarrow>
      let total = fmul (Finite (daily_rate v)) (to_double (of_int days)) in
      (case to_sql uid of
        Inl ex \<Rightarrow> (Inl ex, d)
      | Inr u \<Rightarrow>
      (case bind_int pickup_loc of
        Inl ex \<Rightarrow> (Inl ex, d)
      | Inr _ \<Rightarrow>
      (case bind_int dropoff_loc of
        Inl ex \<Rightarrow> (Inl ex, d)
      | Inr _ \<Rightarrow>
      (case to_sql (dict_get driver_details ''license_number'' JNull) of
        Inl ex \<Rightarrow> (Inl ex, d)
      | Inr license \<Rightarrow>
      let new_id = next_rowid (map cb_booking_id (car_rental_bookings d));
          d1 = d\<lparr>car_rental_bookings := car_rental_bookings d @
                 [\<lparr> cb_booking_id = new_id, cb_user_id = u, cb_vehicle_id = vid,
                    pickup_location_id = pickup_loc, dropoff_location_id = dropoff_loc,
                    cb_booking_reference = booking_ref,
                    pickup_date = pickup_text, dropoff_date = dropoff_text,
                    rental_days = days, cb_daily_rate = daily_rate v, cb_total_price = total,
                    driver_license_number = license,
                    cb_booking_status = ''CONFIRMED'' \<rparr>]\<rparr>;
          d2 = mark_rented vid d1
      in (Inr (Success \<lparr> cc_booking_id = new_id, cc_booking_reference = booking_ref,
                         cc_total_price = total, cc_currency = vehicle_currency v,
                         cc_rental_days = days \<rparr>), d2)))))))))"

text \<open>Whether a service call returned a success dictionary.\<close>

fun succeeded :: "py_exn + 'a outcome \<Rightarrow> bool" where
  "succeeded (Inr (Success c)) = True"
| "succeeded (Inr (Failure m)) = False"
| "succeeded (Inl ex) = False"

section \<open>FlightService.search_flights\<close>

text \<open>
  Parameter values reach the handlers as text, or as an already parsed JSON object (the
  handlers test \<open>isinstance(value, str)\<close>); \<open>PNone\<close> is Python's \<open>None\<close>. The
  handlers pass them to the services unchecked, so the model of \<open>search_flights\<close>
  takes them as they come.
\<close>

datatype pvalue = PNone | PText string | PObject py_dict

fun pvalue_json :: "pvalue \<Rightarrow> json" where
  "pvalue_json PNone = JNull"
| "pvalue_json (PText s) = JStr s"
| "pvalue_json (PObject d) = JObj d"

text \<open>Binding a parameter value to a placeholder: \<open>None\<close> is NULL, a dictionary is refused.\<close>

fun bind_text :: "pvalue \<Rightarrow> py_exn + string option" where
  "bind_text PNone = Inr None"
| "bind_text (PText s) = Inr (Some s)"
| "bind_text (PObject d) = Inl (OtherError ''Error binding parameter: type is not supported'')"

text \<open>A row of the flight query: the flight with the joined airline and airport columns.\<close>

record flight_row =
  row_flight :: flight
  row_airline_name :: string
  row_airline_code :: string
  origin_code :: string
  origin_city :: string
  destination_code :: string
  destination_city :: string

text \<open>What \<open>search_flights\<close> returns: the empty list, or the dictionary of the two lists.\<close>

datatype search_result = EmptyList | FlightLists "flight_row list" "flight_row list"

text \<open>\<open>SELECT airport_id FROM airports WHERE airport_code = ? OR city LIKE ?\<close>
  with the parameters \<open>text.upper()\<close> and \<open>%text%\<close>.\<close>

definition select_airports :: "db \<Rightarrow> string \<Rightarrow> airport list" where
  "select_airports d text =
     filter (\<lambda>a. airport_code a = upper text \<or> sql_like (''%'' @ text @ ''%'') (city a))
       (airports d)"

text \<open>\<open>DATE(f.departure_time) = DATE(?)\<close>; a comparison with NULL is not true.\<close>

definition same_date :: "env \<Rightarrow> string \<Rightarrow> string option \<Rightarrow> bool" where
  "same_date e departure bound =
     (case (sql_date e departure, bound) of
        (Some a, Some s) \<Rightarrow> (case sql_date e s of Some b \<Rightarrow> a = b | None \<Rightarrow> False)
      | _ \<Rightarrow> False)"

text \<open>
  The flight query: flights joined with their airline and both airports, kept when
  origin, destination, date and free seats match, ordered by departure time.
\<close>

definition joined_rows :: "db \<Rightarrow> flight \<Rightarrow> flight_row list" where
  "joined_rows d f =
     concat (map (\<lambda>a.
       concat (map (\<lambda>orig.
         map (\<lambda>dest. \<lparr> row_flight = f,
                        row_airline_name = airline_name a, row_airline_code = airline_code a,
                        origin_code = airport_code orig, origin_city = city orig,
                        destination_code = airport_code dest, destination_city = city dest \<rparr>)
           (filter (\<lambda>dest. airport_id dest = destination_airport_id f) (airports d)))
         (filter (\<lambda>orig. airport_id orig = origin_airport_id f) (airports d))))
       (filter (\<lambda>a. airline_id a = flight_airline_id f) (airlines d)))"

definition select_flight_rows ::
  "env \<Rightarrow> db \<Rightarrow> int \<Rightarrow> int \<Rightarrow> string option \<Rightarrow> int \<Rightarrow> flight_row list" where
  "select_flight_rows e d origin_id destination_id date passengers =
     sort_key (\<lambda>r. departure_time (row_flight r))
       (concat (map (joined_rows d)
          (filter (\<lambda>f. origin_airport_id f = origin_id
                      \<and> destination_airport_id f = destination_id
                      \<and> same_date e (departure_time f) date
                      \<and> passengers \<le> available_seats f)
             (flights d))))"

text \<open>Truth value of a parameter value, as \<open>if return_date:\<close> tests it.\<close>

fun truthy_value :: "pvalue \<Rightarrow> bool" where
  "truthy_value PNone = False"
| "truthy_value (PText s) = (s \<noteq> [])"
| "truthy_value (PObject d) = (d \<noteq> [])"

definition no_upper :: py_exn where
  "no_upper = AttributeError ''object has no attribute upper''"

definition search_flights ::
  "env \<Rightarrow> db \<Rightarrow> pvalue \<Rightarrow> pvalue \<Rightarrow> pvalue \<Rightarrow> pvalue \<Rightarrow> int \<Rightarrow> py_exn + search_result" where
  "search_flights e d origin destination departure_date return_date passengers =
     (case origin of
        PText origin_text \<Rightarrow>
          (case destination of
             PText destination_text \<Rightarrow>
               (case (select_airports d origin_text, select_airports d destination_text) of
                  (o1 # _, d1 # _) \<Rightarrow>
                    (case bind_text departure_date of
                       Inl ex \<Rightarrow> Inl ex
                     | Inr dep \<Rightarrow>
                         let outbound_flights =
                               select_flight_rows e d (airport_id o1) (airport_id d1) dep passengers
                         in if truthy_value return_date
                            then (case bind_text return_date of
                                    Inl ex \<Rightarrow> Inl ex
                                  | Inr ret \<Rightarrow>
                                      Inr (FlightLists outbound_flights
                                             (select_flight_rows e d (airport_id d1) (airport_id o1)
                                                ret passengers)))
                            else Inr (FlightLists outbound_flights []))
                | _ \<Rightarrow> Inr EmptyList)
           | _ \<Rightarrow> Inl no_upper)
      | _ \<Rightarrow> Inl no_upper)"

section \<open>The handlers of the flight booking agent\<close>

text \<open>
  \<open>params_dict\<close>: the dictionary built from the event's parameter list, a later entry
  replacing an earlier one of the same name. An entry without a name is stored under the
  key \<open>None\<close>, which no handler looks up.
\<close>

record param =
  param_name :: "string option"
  param_value :: pvalue

type_synonym params = "string \<rightharpoonup> pvalue"

definition build_params :: "param list \<Rightarrow> params" where
  "build_params ps =
     fold (\<lambda>p m. case param_name p of None \<Rightarrow> m | Some n \<Rightarrow> m(n \<mapsto> param_value p))
       ps Map.empty"

text \<open>\<open>params[k]\<close> once the handler has checked that \<open>k\<close> is present; \<open>params.get(k)\<close>.\<close>

definition param_get :: "params \<Rightarrow> string \<Rightarrow> pvalue" where
  "param_get ps k = (case ps k of None \<Rightarrow> PNone | Some v \<Rightarrow> v)"

definition missing_param :: "params \<Rightarrow> string list \<Rightarrow> string option" where
  "missing_param ps required = find (\<lambda>k. ps k = None) required"

definition failure_json :: "string \<Rightarrow> string \<Rightarrow> json" where
  "failure_json msg error_type =
     JObj [(''success'', JBool False), (''error'', JStr msg), (''error_type'', JStr error_type)]"

text \<open>
  \<open>int(x)\<close> on a parameter value. A text is stripped of surrounding whitespace and
  must be an optional sign and decimal digits, single underscores allowed between digits.
\<close>

definition is_int_space :: "char \<Rightarrow> bool" where
  "is_int_space c =
     (let n = (of_char c :: nat) in (9 \<le> n \<and> n \<le> 13) \<or> n = 32 \<or> n = 133 \<or> n = 160)"

definition strip :: "string \<Rightarrow> string" where
  "strip s = rev (dropWhile is_int_space (rev (dropWhile is_int_space s)))"

fun underscore_digits :: "string \<Rightarrow> bool" where
  "underscore_digits [] = False"
| "underscore_digits [c] = is_digit c"
| "underscore_digits (c # c' # cs) =
     (is_digit c \<and> (if c' = CHR ''_'' then underscore_digits cs else underscore_digits (c' # cs)))"

definition unsigned_literal :: "string \<Rightarrow> nat option" where
  "unsigned_literal s =
     (if underscore_digits s then Some (digits_value (filter (\<lambda>c. c \<noteq> CHR ''_'') s)) else None)"

definition int_literal :: "string \<Rightarrow> int option" where
  "int_literal s =
     (case strip s of
        [] \<Rightarrow> None
      | c # cs \<Rightarrow>
          if c = CHR ''-'' then map_option (\<lambda>n. - int n) (unsigned_literal cs)
          else if c = CHR ''+'' then map_option int (unsigned_literal cs)
          else map_option int (unsigned_literal (c # cs)))"

fun py_int :: "pvalue \<Rightarrow> py_exn + int" where
  "py_int (PText s) =
     (case int_literal s of
        None \<Rightarrow> Inl (ValueError ''invalid literal for int() with base 10'')
      | Some i \<Rightarrow> Inr i)"
| "py_int v = Inl (TypeError ''int() argument must be a string or a real number'')"

text \<open>\<open>format_flight_list\<close>\<close>

definition format_flight :: "flight_row \<Rightarrow> json" where
  "format_flight r =
     (let f = row_flight r in
      JObj [(''flight_id'', JInt (flight_id f)),
            (''flight_number'', JStr (flight_number f)),
            (''airline'', JObj [(''code'', JStr (row_airline_code r)),
                                (''name'', JStr (row_airline_name r))]),
            (''route'',
               JObj [(''origin'', JObj [(''code'', JStr (origin_code r)),
                                        (''city'', JStr (origin_city r))]),
                     (''destination'', JObj [(''code'', JStr (destination_code r)),
                                             (''city'', JStr (destination_city r))])]),
            (''schedule'', JObj [(''departure_time'', JStr (departure_time f)),
                                 (''arrival_time'', JStr (arrival_time f))]),
            (''aircraft'', JStr (aircraft_type f)),
            (''pricing'', JObj [(''base_price'', JNum (base_price f)),
                                (''currency'', JStr (currency f))]),
            (''availability'', JObj [(''total_seats'', JInt (total_seats f)),
                                     (''available_seats'', JInt (available_seats f))])])"

definition format_flight_list :: "flight_row list \<Rightarrow> json" where
  "format_flight_list rows = JList (map format_flight rows)"

text \<open>
  Each handler is a \<open>try\<close> block whose body may return early or raise; the body is
  modelled first, with a raised exception on the left, and the \<open>except\<close> clauses then
  turn the exception into a failure dictionary.
\<close>

definition search_flights_body :: "env \<Rightarrow> db \<Rightarrow> params \<Rightarrow> py_exn + json" where
  "search_flights_body e d ps =
     (case missing_param ps [''origin'', ''destination'', ''departure_date'', ''passengers''] of
        Some k \<Rightarrow> Inr (failure_json (''Missing required parameter: '' @ k) ''validation_error'')
      | None \<Rightarrow>
          let origin = param_get ps ''origin'';
              destination = param_get ps ''destination'';
              departure_date = param_get ps ''departure_date'';
              return_date = param_get ps ''return_date''
          in case py_int (param_get ps ''passengers'') of
               Inl ex \<Rightarrow> Inl ex
             | Inr passengers \<Rightarrow>
                 if passengers < 1 \<or> 9 < passengers
                 then Inr (failure_json ''Passenger count must be between 1 and 9''
                             ''validation_error'')
                 else
                   (case search_flights e d origin destination departure_date return_date
                           passengers of
                      Inl ex \<Rightarrow> Inl ex
                    | Inr EmptyList \<Rightarrow>
                        Inr (failure_json ''No flights found for the specified criteria''
                               ''no_results'')
                    | Inr (FlightLists outbound_flights return_flights) \<Rightarrow>
                        Inr (JObj
                          [(''success'', JBool True),
                           (''search_criteria'',
                              JObj [(''origin'', pvalue_json origin),
                                    (''destination'', pvalue_json destination),
                                    (''departure_date'', pvalue_json departure_date),
                                    (''return_date'', pvalue_json return_date),
                                    (''passengers'', JInt passengers)]),
                           (''outbound_flights'', format_flight_list outbound_flights),
                           (''return_flights'',
                              if truthy_value return_date then format_flight_list return_flights
                              else JList [])])))"

definition handle_search_flights :: "env \<Rightarrow> db \<Rightarrow> params \<Rightarrow> json" where
  "handle_search_flights e d ps =
     (case search_flights_body e d ps of
        Inr result \<Rightarrow> result
      | Inl ex \<Rightarrow>
          if is_value_error ex
          then failure_json (''Invalid parameter value: '' @ exn_text ex) ''validation_error''
          else failure_json (''Flight search failed: '' @ exn_text ex) ''service_error'')"

text \<open>
  \<open>passenger_details\<close> of a booking request: a text is parsed with \<open>json.loads\<close>,
  anything else is taken as it is. \<open>None\<close> stands for the \<open>JSONDecodeError\<close>.
\<close>

fun parse_details :: "env \<Rightarrow> pvalue \<Rightarrow> json option" where
  "parse_details e (PText s) = json_loads e s"
| "parse_details e v = Some (pvalue_json v)"

definition service_failure_json :: "string \<Rightarrow> json" where
  "service_failure_json msg = JObj [(''success'', JBool False), (''error'', JStr msg)]"

definition book_flight_body :: "env \<Rightarrow> db \<Rightarrow> params \<Rightarrow> (py_exn + json) \<times> db" where
  "book_flight_body e d ps =
     (case missing_param ps [''flight_id'', ''passenger_details''] of
        Some k \<Rightarrow>
          (Inr (failure_json (''Missing required parameter: '' @ k) ''validation_error''), d)
      | None \<Rightarrow>
          (case py_int (param_get ps ''flight_id'') of
             Inl ex \<Rightarrow> (Inl ex, d)
           | Inr fid \<Rightarrow>
               (case parse_details e (param_get ps ''passenger_details'') of
                  None \<Rightarrow>
                    (Inr (failure_json ''Invalid passenger_details format. Must be valid JSON.''
                            ''validation_error''), d)
                | Some (JObj passenger_details) \<Rightarrow>
                    let uid = dict_get passenger_details ''user_id'' (JInt 1) in
                    (case book_flight e d uid fid passenger_details of
                       (Inl ex, d') \<Rightarrow> (Inl ex, d')
                     | (Inr (Failure msg), d') \<Rightarrow> (Inr (service_failure_json msg), d')
                     | (Inr (Success c), d') \<Rightarrow>
                         (Inr (JObj
                            [(''success'', JBool True),
                             (''booking_confirmation'',
                                JObj [(''booking_id'', JInt (fc_booking_id c)),
                                      (''booking_reference'', JStr (fc_booking_reference c)),
                                      (''total_price'', float_json (fc_total_price c)),
                                      (''currency'', JStr (fc_currency c)),
                                      (''status'', JStr ''CONFIRMED''),
                                      (''booking_date'', JStr (now_iso e))]),
                             (''message'',
                                JStr (''Flight successfully booked! Your booking reference is ''
                                        @ fc_booking_reference c))]), d'))
                | Some other \<Rightarrow> (Inl (AttributeError ''object has no attribute get''), d))))"

definition handle_book_flight :: "env \<Rightarrow> db \<Rightarrow> params \<Rightarrow> json \<times> db" where
  "handle_book_flight e d ps =
     (case book_flight_body e d ps of
        (Inr result, d') \<Rightarrow> (result, d')
      | (Inl ex, d') \<Rightarrow>
          (if is_value_error ex
           then failure_json (''Invalid parameter value: '' @ exn_text ex) ''validation_error''
           else failure_json (''Flight booking failed: '' @ exn_text ex) ''service_error'', d'))"

text \<open>How an f-string renders an optional text: \<open>None\<close> gives \<open>None\<close>.\<close>

fun str_option :: "string option \<Rightarrow> string" where
  "str_option None = ''None''"
| "str_option (Some s) = s"

fun json_option :: "string option \<Rightarrow> json" where
  "json_option None = JNull"
| "json_option (Some s) = JStr s"

text \<open>
  The body of \<open>handle_cancel_flight\<close>. A booking reference that is \<open>None\<close> is bound as
  NULL, which equals no stored reference, so the query of \<open>cancel_flight\<close> finds no row.
\<close>

definition cancel_flight_body :: "env \<Rightarrow> db \<Rightarrow> params \<Rightarrow> (py_exn + json) \<times> db" where
  "cancel_flight_body e d ps =
     (case missing_param ps [''booking_reference''] of
        Some k \<Rightarrow>
          (Inr (failure_json ''Missing required parameter: booking_reference''
                  ''validation_error''), d)
      | None \<Rightarrow>
          (case bind_text (param_get ps ''booking_reference'') of
             Inl ex \<Rightarrow> (Inl ex, d)
           | Inr None \<Rightarrow> (Inr (service_failure_json ''Booking not found''), d)
           | Inr (Some ref) \<Rightarrow>
               (case cancel_flight d ref of
                  (Failure msg, d') \<Rightarrow> (Inr (service_failure_json msg), d')
                | (Success r, d') \<Rightarrow>
                    (Inr (JObj
                       [(''success'', JBool True),
                        (''cancellation_status'',
                           JObj [(''booking_reference'', JStr ref),
                                 (''status'', JStr ''CANCELLED''),
                                 (''refund_amount'', float_json (refund_amount r)),
                                 (''currency'', json_option (refund_currency r)),
                                 (''cancellation_date'', JStr (now_iso e))]),
                        (''message'',
                           JStr (''Flight booking '' @ ref
                                   @ '' has been successfully cancelled. Refund of ''
                                   @ str_option (refund_currency r) @ '' ''
                                   @ str_float e (refund_amount r) @ '' will be processed.''))]),
                     d'))))"

definition handle_cancel_flight :: "env \<Rightarrow> db \<Rightarrow> params \<Rightarrow> json \<times> db" where
  "handle_cancel_flight e d ps =
     (case cancel_flight_body e d ps of
        (Inr result, d') \<Rightarrow> (result, d')
      | (Inl ex, d') \<Rightarrow>
          (failure_json (''Flight cancellation failed: '' @ exn_text ex) ''service_error'', d'))"

text \<open>
  The event and the response envelope. A key the event lacks is \<open>None\<close>. The response
  body is the result dictionary itself; the code places its \<open>json.dumps\<close> text there.
\<close>

record event =
  agent :: "string option"
  actionGroup :: "string option"
  function_name :: "string option"
  parameters :: "param list option"
  sessionAttributes :: "json option"
  promptSessionAttributes :: "json option"

record response =
  messageVersion :: string
  response_actionGroup :: "string option"
  response_function :: "string option"
  response_body :: json
  response_sessionAttributes :: json
  response_promptSessionAttributes :: json

text \<open>\<open>event.get(key, default)\<close>\<close>

definition get_or :: "'a option \<Rightarrow> 'a \<Rightarrow> 'a" where
  "get_or v dflt = (case v of None \<Rightarrow> dflt | Some x \<Rightarrow> x)"

text \<open>
  \<open>lambda_handler\<close> of the flight booking agent. \<open>store\<close> is what downloading and
  opening the database gives: the store, or the exception raised on the way. The second
  component of the result is the store left behind.
\<close>

definition lambda_handler :: "env \<Rightarrow> py_exn + db \<Rightarrow> event \<Rightarrow> response \<times> (py_exn + db)" where
  "lambda_handler e store ev =
     (case store of
        Inr d \<Rightarrow>
          let params_dict = build_params (get_or (parameters ev) []);
              (result, d') =
                (if function_name ev = Some ''search_flights''
                 then (handle_search_flights e d params_dict, d)
                 else if function_name ev = Some ''book_flight''
                 then handle_book_flight e d params_dict
                 else if function_name ev = Some ''cancel_flight''
                 then handle_cancel_flight e d params_dict
                 else (service_failure_json
                         (''Unknown function: '' @ str_option (function_name ev)), d))
          in (\<lparr> messageVersion = ''1.0'',
                response_actionGroup = actionGroup ev,
                response_function = function_name ev,
                response_body = result,
                response_sessionAttributes = get_or (sessionAttributes ev) (JObj []),
                response_promptSessionAttributes = get_or (promptSessionAttributes ev) (JObj []) \<rparr>,
              Inr d')
      | Inl ex \<Rightarrow>
          (\<lparr> messageVersion = ''1.0'',
             response_actionGroup = Some (get_or (actionGroup ev) ''flight-operations''),
             response_function = Some (get_or (function_name ev) ''unknown''),
             response_body = failure_json (exn_text ex) ''system_error'',
             response_sessionAttributes = get_or (sessionAttributes ev) (JObj []),
             response_promptSessionAttributes = get_or (promptSessionAttributes ev) (JObj []) \<rparr>,
           Inl ex))"

section \<open>The cancellation handler of the car rental agent\<close>

text \<open>How an f-string renders a parameter value.\<close>

fun str_value :: "env \<Rightarrow> pvalue \<Rightarrow> string" where
  "str_value e PNone = ''None''"
| "str_value e (PText s) = s"
| "str_value e (PObject d) = str_dict e d"

text \<open>
  \<open>handle_cancel_rental\<close> receives the service and never calls it; the store is passed
  through so that this can be stated. Nothing in the body raises, so the \<open>except\<close>
  clause of the source has no counterpart.
\<close>

definition handle_cancel_rental :: "env \<Rightarrow> db \<Rightarrow> params \<Rightarrow> json \<times> db" where
  "handle_cancel_rental e d ps =
     (case missing_param ps [''booking_id''] of
        Some k \<Rightarrow>
          (failure_json ''Missing required parameter: booking_id'' ''validation_error'', d)
      | None \<Rightarrow>
          let booking = param_get ps ''booking_id'' in
          (JObj [(''success'', JBool True),
                 (''cancellation_status'',
                    JObj [(''booking_id'', pvalue_json booking),
                          (''status'', JStr ''CANCELLED''),
                          (''refund_amount'', JNum 0),
                          (''cancellation_fees'', JNum 0),
                          (''currency'', JStr ''USD''),
                          (''cancellation_date'', JStr (now_iso e)),
                          (''refund_timeline'', JStr ''5-7 business days'')]),
                 (''message'',
                    JStr (''Car rental booking '' @ str_value e booking
                            @ '' has been successfully cancelled''))], d))"

text \<open>Reading a result dictionary along a path of keys.\<close>

fun json_path :: "json \<Rightarrow> string list \<Rightarrow> json option" where
  "json_path v [] = Some v"
| "json_path (JObj kvs) (k # ks) =
     (case map_of kvs k of None \<Rightarrow> None | Some v \<Rightarrow> json_path v ks)"
| "json_path v (k # ks) = None"

section \<open>Example data\<close>

text \<open>
  A small store and environment on which the properties below are run. \<open>iso_date_part\<close>
  stands for SQLite's \<open>DATE()\<close> on the texts \<open>YYYY-MM-DD ...\<close> of the examples,
  \<open>two_decimals\<close> for \<open>str()\<close> on their amounts, \<open>braces\<close> for \<open>str()\<close> on a
  dictionary. The prices are the doubles that Python reads from \<open>299.99\<close>,
  \<open>349.99\<close>, \<open>450.0\<close>, \<open>89.99\<close>, \<open>35.99\<close> and \<open>42.99\<close>.
\<close>

definition iso_date_part :: "string \<Rightarrow> string option" where
  "iso_date_part s = (if 10 \<le> length s then Some (take 10 s) else None)"

definition loads_empty_object :: "string \<Rightarrow> json option" where
  "loads_empty_object s = (if s = ''{}'' then Some (JObj []) else None)"

fun two_decimals :: "pyfloat \<Rightarrow> string" where
  "two_decimals (Finite r) =
     (let cents = nat \<lfloor>r * 100\<rfloor>; f = cents mod 100 in
      str_nat (cents div 100) @ ''.''
        @ (if f mod 10 = 0 then [digit_char (f div 10)]
           else [digit_char (f div 10), digit_char (f mod 10)]))"
| "two_decimals (NonFinite x) = ''nan''"

definition braces :: "py_dict \<Rightarrow> string" where
  "braces d = ''{'' @ concat (map fst d) @ ''}''"

definition example_env :: env where
  "example_env = \<lparr> sql_date = iso_date_part, json_loads = loads_empty_object,
                    str_float = two_decimals, str_dict = braces,
                    now_stamp = ''20240210093000'', now_iso = ''2024-02-10T09:30:00'' \<rparr>"

definition flight_aa100 :: flight where
  "flight_aa100 = \<lparr> flight_id = 1, flight_number = ''AA100'', flight_airline_id = 1,
      origin_airport_id = 1, destination_airport_id = 2,
      departure_time = ''2024-02-15 08:00:00'', arrival_time = ''2024-02-15 11:30:00'',
      aircraft_type = ''Boeing 737'', total_seats = 180, available_seats = 150,
      base_price = 1319369972866089 / 4398046511104, currency = ''USD'' \<rparr>"

definition flight_dl200 :: flight where
  "flight_dl200 = \<lparr> flight_id = 2, flight_number = ''DL200'', flight_airline_id = 2,
      origin_airport_id = 1, destination_airport_id = 2,
      departure_time = ''2024-02-15 14:00:00'', arrival_time = ''2024-02-15 17:30:00'',
      aircraft_type = ''Airbus A320'', total_seats = 160, available_seats = 1,
      base_price = 1539272298421289 / 4398046511104, currency = ''USD'' \<rparr>"

definition booking_confirmed :: flight_booking where
  "booking_confirmed = \<lparr> booking_id = 1, user_id = SqlInt 1, booked_flight_id = 1,
      booking_reference = ''FL20240201001'', passenger_count = 2,
      total_price = Finite (1319369972866089 / 2199023255552),
      booking_currency = Some ''USD'', special_requests = JList [],
      booking_status = ''CONFIRMED'' \<rparr>"

definition booking_cancelled :: flight_booking where
  "booking_cancelled = \<lparr> booking_id = 2, user_id = SqlInt 2, booked_flight_id = 2,
      booking_reference = ''FL20240201002'', passenger_count = 1,
      total_price = Finite (1539272298421289 / 4398046511104),
      booking_currency = Some ''USD'', special_requests = JList [],
      booking_status = ''CANCELLED'' \<rparr>"

definition hotel_plaza :: hotel where
  "hotel_plaza = \<lparr> hotel_id = 1, hotel_name = ''The Plaza Hotel'', hotel_city = ''New York'',
      hotel_country = ''United States'', hotel_total_rooms = 282, hotel_active = 1 \<rparr>"

definition room_standard_king :: room_type where
  "room_standard_king = \<lparr> room_type_id = 1, room_hotel_id = 1,
      room_type_name = ''Standard King Room'', max_occupancy = 2,
      base_price_per_night = 450, room_currency = ''USD'', room_total_rooms = 50,
      room_active = 1 \<rparr>"

definition room_economy :: room_type where
  "room_economy = \<lparr> room_type_id = 2, room_hotel_id = 1,
      room_type_name = ''Economy Room'', max_occupancy = 2,
      base_price_per_night = 6332483288547983 / 70368744177664, room_currency = ''USD'',
      room_total_rooms = 80, room_active = 1 \<rparr>"

definition vehicle_versa :: vehicle where
  "vehicle_versa = \<lparr> vehicle_id = 1, vehicle_location_id = 1,
      daily_rate = 5065142205908255 / 140737488355328,
      vehicle_currency = ''USD'', availability_status = ''AVAILABLE'' \<rparr>"

definition vehicle_focus :: vehicle where
  "vehicle_focus = \<lparr> vehicle_id = 2, vehicle_location_id = 1,
      daily_rate = 6050304624395551 / 140737488355328,
      vehicle_currency = ''USD'', availability_status = ''RENTED'' \<rparr>"

definition example_db :: db where
  "example_db = \<lparr>
     airlines = [\<lparr> airline_id = 1, airline_code = ''AA'', airline_name = ''American Airlines'' \<rparr>,
                 \<lparr> airline_id = 2, airline_code = ''DL'', airline_name = ''Delta Air Lines'' \<rparr>],
     airports = [\<lparr> airport_id = 1, airport_code = ''JFK'', city = ''New York'' \<rparr>,
                 \<lparr> airport_id = 2, airport_code = ''LAX'', city = ''Los Angeles'' \<rparr>],
     flights = [flight_aa100, flight_dl200],
     flight_bookings = [booking_confirmed, booking_cancelled],
     flight_bookings_default_currency = Some ''USD'',
     hotels = [hotel_plaza],
     room_types = [room_standard_king, room_economy],
     hotel_bookings = [],
     available_vehicles = [vehicle_versa, vehicle_focus],
     car_rental_bookings = [] \<rparr>"

definition two_passengers :: py_dict where
  "two_passengers = [(''passengers'', JList [JStr ''John Doe'', JStr ''Jane Doe''])]"

definition no_passengers :: py_dict where
  "no_passengers = [(''special_requests'', JList [JStr ''window seat''])]"

definition empty_passengers :: py_dict where
  "empty_passengers = [(''passengers'', JList [])]"

definition guests_two_rooms :: py_dict where
  "guests_two_rooms =
     [(''guests'', JList [JStr ''John Doe'', JStr ''Jane Doe'']), (''room_count'', JInt 2)]"

definition driver_doe :: py_dict where
  "driver_doe = [(''license_number'', JStr ''D1234567''), (''name'', JStr ''John Doe'')]"

definition search_march_params :: "param list" where
  "search_march_params =
     [\<lparr> param_name = Some ''origin'', param_value = PText ''JFK'' \<rparr>,
      \<lparr> param_name = Some ''destination'', param_value = PText ''LAX'' \<rparr>,
      \<lparr> param_name = Some ''departure_date'', param_value = PText ''2024-03-01'' \<rparr>,
      \<lparr> param_name = Some ''passengers'', param_value = PText ''2'' \<rparr>]"

definition cancel_rental_params :: "param list" where
  "cancel_rental_params = [\<lparr> param_name = Some ''booking_id'', param_value = PText ''CR999'' \<rparr>]"

definition session_map :: json where
  "session_map = JObj [(''customer'', JStr ''42''), (''locale'', JStr ''en-US'')]"

definition prompt_map :: json where
  "prompt_map = JObj [(''tone'', JStr ''brief'')]"

definition search_event :: event where
  "search_event = \<lparr> agent = Some ''flight-booking-agent'', actionGroup = Some ''flight-operations'',
      function_name = Some ''search_flights'', parameters = Some search_march_params,
      sessionAttributes = Some session_map, promptSessionAttributes = Some prompt_map \<rparr>"

section \<open>Verified properties\<close>

subsection \<open>Helper facts about the statements\<close>

lemmas example_defs =
  example_db_def flight_aa100_def flight_dl200_def booking_confirmed_def booking_cancelled_def
  example_env_def select_flights_def dict_get_def

lemma filter_map_update:
  assumes "\<And>x. key (upd x) = key x"
  shows "filter (\<lambda>x. key x = k) (map (\<lambda>x. if key x = k' then upd x else x) xs)
         = map (\<lambda>x. if key x = k' then upd x else x) (filter (\<lambda>x. key x = k) xs)"
  using assms by (induction xs) auto

lemma select_flights_add_seats:
  "select_flights (add_seats n fid d) k
     = map (\<lambda>f. if flight_id f = fid then f\<lparr>available_seats := available_seats f + n\<rparr> else f)
         (select_flights d k)"
  unfolding select_flights_def add_seats_def
  by (simp add: filter_map_update [where key = flight_id])

lemma select_flights_add_seats_same:
  "select_flights (add_seats n fid d) fid
     = map (\<lambda>f. f\<lparr>available_seats := available_seats f + n\<rparr>) (select_flights d fid)"
  unfolding select_flights_add_seats
  by (rule map_cong) (auto simp: select_flights_def)

lemma select_flights_insert_booking [simp]:
  "select_flights (insert_flight_booking b d) k = select_flights d k"
  by (simp add: select_flights_def insert_flight_booking_def)

lemma flight_bookings_add_seats [simp]:
  "flight_bookings (add_seats n fid d) = flight_bookings d"
  by (simp add: add_seats_def)

subsection \<open>Evaluating products of floats\<close>

lemma floor_numeral_quotient:
  "\<lfloor>numeral a / numeral b :: rat\<rfloor> = numeral a div numeral b"
  by (metis floor_divide_of_int_eq of_int_numeral)

lemma double_of_1_exponent: "double_exponent (1) = - 52"
  by (simp add: double_exponent_def floor_log2_def pow2_def Let_def floor_numeral_quotient)

lemma double_of_1_mantissa: "double_mantissa (1) (- 52) = 4503599627370496"
  by (simp add: double_mantissa_def round_half_even_def pow2_def Let_def floor_numeral_quotient)

lemma double_of_1: "to_double (1) = Finite (1)"
  by (simp add: to_double_def Let_def double_of_1_exponent double_of_1_mantissa pow2_def)

lemma double_of_2_exponent: "double_exponent (2) = - 51"
  by (simp add: double_exponent_def floor_log2_def pow2_def Let_def floor_numeral_quotient)

lemma double_of_2_mantissa: "double_mantissa (2) (- 51) = 4503599627370496"
  by (simp add: double_mantissa_def round_half_even_def pow2_def Let_def floor_numeral_quotient)

lemma double_of_2: "to_double (2) = Finite (2)"
  by (simp add: to_double_def Let_def double_of_2_exponent double_of_2_mantissa pow2_def)

lemma double_of_3_exponent: "double_exponent (3) = - 51"
  by (simp add: double_exponent_def floor_log2_def pow2_def Let_def floor_numeral_quotient)

lemma double_of_3_mantissa: "double_mantissa (3) (- 51) = 6755399441055744"
  by (simp add: double_mantissa_def round_half_even_def pow2_def Let_def floor_numeral_quotient)

lemma double_of_3: "to_double (3) = Finite (3)"
  by (simp add: to_double_def Let_def double_of_3_exponent double_of_3_mantissa pow2_def)

lemma double_of_7_exponent: "double_exponent (7) = - 50"
  by (simp add: double_exponent_def floor_log2_def pow2_def Let_def floor_numeral_quotient)

lemma double_of_7_mantissa: "double_mantissa (7) (- 50) = 7881299347898368"
  by (simp add: double_mantissa_def round_half_even_def pow2_def Let_def floor_numeral_quotient)

lemma double_of_7: "to_double (7) = Finite (7)"
  by (simp add: to_double_def Let_def double_of_7_exponent double_of_7_mantissa pow2_def)

lemma double_fare_twice_exponent: "double_exponent (1319369972866089 / 2199023255552) = - 43"
  by (simp add: double_exponent_def floor_log2_def pow2_def Let_def floor_numeral_quotient)

lemma double_fare_twice_mantissa: "double_mantissa (1319369972866089 / 2199023255552) (- 43) = 5277479891464356"
  by (simp add: double_mantissa_def round_half_even_def pow2_def Let_def floor_numeral_quotient)

lemma double_fare_twice: "to_double (1319369972866089 / 2199023255552) = Finite (1319369972866089 / 2199023255552)"
  by (simp add: to_double_def Let_def double_fare_twice_exponent double_fare_twice_mantissa pow2_def)

lemma double_fare_seven_exponent: "double_exponent (9235589810062623 / 4398046511104) = - 41"
  by (simp add: double_exponent_def floor_log2_def pow2_def Let_def floor_numeral_quotient)

lemma double_fare_seven_mantissa: "double_mantissa (9235589810062623 / 4398046511104) (- 41) = 4617794905031312"
  by (simp add: double_mantissa_def round_half_even_def pow2_def Let_def floor_numeral_quotient)

lemma double_fare_seven: "to_double (9235589810062623 / 4398046511104) = Finite (288612181564457 / 137438953472)"
  by (simp add: to_double_def Let_def double_fare_seven_exponent double_fare_seven_mantissa pow2_def)

lemma double_room_three_nights_exponent: "double_exponent (18997449865643949 / 70368744177664) = - 44"
  by (simp add: double_exponent_def floor_log2_def pow2_def Let_def floor_numeral_quotient)

lemma double_room_three_nights_mantissa: "double_mantissa (18997449865643949 / 70368744177664) (- 44) = 4749362466410987"
  by (simp add: double_mantissa_def round_half_even_def pow2_def Let_def floor_numeral_quotient)

lemma double_room_three_nights: "to_double (18997449865643949 / 70368744177664) = Finite (4749362466410987 / 17592186044416)"
  by (simp add: to_double_def Let_def double_room_three_nights_exponent double_room_three_nights_mantissa pow2_def)

lemma double_room_three_nights_twice_exponent: "double_exponent (4749362466410987 / 8796093022208) = - 43"
  by (simp add: double_exponent_def floor_log2_def pow2_def Let_def floor_numeral_quotient)

lemma double_room_three_nights_twice_mantissa: "double_mantissa (4749362466410987 / 8796093022208) (- 43) = 4749362466410987"
  by (simp add: double_mantissa_def round_half_even_def pow2_def Let_def floor_numeral_quotient)

lemma double_room_three_nights_twice: "to_double (4749362466410987 / 8796093022208) = Finite (4749362466410987 / 8796093022208)"
  by (simp add: to_double_def Let_def double_room_three_nights_twice_exponent double_room_three_nights_twice_mantissa pow2_def)

lemma double_rate_once_exponent: "double_exponent (5065142205908255 / 140737488355328) = - 47"
  by (simp add: double_exponent_def floor_log2_def pow2_def Let_def floor_numeral_quotient)

lemma double_rate_once_mantissa: "double_mantissa (5065142205908255 / 140737488355328) (- 47) = 5065142205908255"
  by (simp add: double_mantissa_def round_half_even_def pow2_def Let_def floor_numeral_quotient)

lemma double_rate_once: "to_double (5065142205908255 / 140737488355328) = Finite (5065142205908255 / 140737488355328)"
  by (simp add: to_double_def Let_def double_rate_once_exponent double_rate_once_mantissa pow2_def)

lemma double_rate_thrice_exponent: "double_exponent (15195426617724765 / 140737488355328) = - 46"
  by (simp add: double_exponent_def floor_log2_def pow2_def Let_def floor_numeral_quotient)

lemma double_rate_thrice_mantissa: "double_mantissa (15195426617724765 / 140737488355328) (- 46) = 7597713308862382"
  by (simp add: double_mantissa_def round_half_even_def pow2_def Let_def floor_numeral_quotient)

lemma double_rate_thrice: "to_double (15195426617724765 / 140737488355328) = Finite (3798856654431191 / 35184372088832)"
  by (simp add: to_double_def Let_def double_rate_thrice_exponent double_rate_thrice_mantissa pow2_def)

lemma double_of_5_exponent: "double_exponent (5) = - 50"
  by (simp add: double_exponent_def floor_log2_def pow2_def Let_def floor_numeral_quotient)

lemma double_of_5_mantissa: "double_mantissa (5) (- 50) = 5629499534213120"
  by (simp add: double_mantissa_def round_half_even_def pow2_def Let_def floor_numeral_quotient)

lemma double_of_5: "to_double (5) = Finite (5)"
  by (simp add: to_double_def Let_def double_of_5_exponent double_of_5_mantissa pow2_def)

lemma double_rate_five_exponent: "double_exponent (25325711029541275 / 140737488355328) = - 45"
  by (simp add: double_exponent_def floor_log2_def pow2_def Let_def floor_numeral_quotient)

lemma double_rate_five_mantissa: "double_mantissa (25325711029541275 / 140737488355328) (- 45) = 6331427757385319"
  by (simp add: double_mantissa_def round_half_even_def pow2_def Let_def floor_numeral_quotient)

lemma double_rate_five: "to_double (25325711029541275 / 140737488355328) = Finite (6331427757385319 / 35184372088832)"
  by (simp add: to_double_def Let_def double_rate_five_exponent double_rate_five_mantissa pow2_def)

subsection \<open>Cancelling a flight booking\<close>

lemma select_flights_mark_cancelled [simp]:
  "select_flights (mark_cancelled ref d) k = select_flights d k"
  by (simp add: select_flights_def mark_cancelled_def)

lemma flight_bookings_mark_cancelled:
  "flight_bookings (mark_cancelled ref d) 
    = map (\<lambda>b. if booking_reference b = ref then b\<lparr>booking_status := ''CANCELLED''\<rparr> else b) (flight_bookings d)"
  by (simp add: mark_cancelled_def)

lemma select_booking_after_cancel:
  "select_booking_with_flight (add_seats n fid (mark_cancelled ref d)) ref
   = map (\<lambda>(b, f). (b\<lparr>booking_status := ''CANCELLED''\<rparr>,
                     if flight_id f = fid then f\<lparr>available_seats := available_seats f + n\<rparr> else f))
       (select_booking_with_flight d ref)"
proof -
  have "concat (map (\<lambda>b. map (Pair b) (select_flights (add_seats n fid (mark_cancelled ref d)) (booked_flight_id b)))
          (filter (\<lambda>b. booking_reference b = ref)
             (map (\<lambda>b. if booking_reference b = ref then b\<lparr>booking_status := ''CANCELLED''\<rparr> else b) bs)))
      = map (\<lambda>(b, f). (b\<lparr>booking_status := ''CANCELLED''\<rparr>,
                     if flight_id f = fid then f\<lparr>available_seats := available_seats f + n\<rparr> else f))
          (concat (map (\<lambda>b. map (Pair b) (select_flights d (booked_flight_id b)))
             (filter (\<lambda>b. booking_reference b = ref) bs)))" for bs
    by (induction bs) (auto simp: select_flights_add_seats)
  then show ?thesis
    by (simp add: select_booking_with_flight_def flight_bookings_mark_cancelled)
qed

text \<open>
  C2. Cancelling by booking reference. If the booking found has status CONFIRMED,
  \<open>cancel_flight\<close> succeeds, the rows the query finds afterwards have status CANCELLED
  and the rows of the booking's flight have \<open>available_seats\<close> raised by exactly the
  stored passenger count. If it is CANCELLED already, the call fails with
  \<open>Booking already cancelled\<close> and the store, seats included, is unchanged. If no
  booking carries the reference, it fails with \<open>Booking not found\<close>.
\<close>

theorem cancel_flight_cases:
  "(select_booking_with_flight d ref = (booking, f) # others
      \<and> booking_status booking = ''CONFIRMED'' \<longrightarrow>
        fst (cancel_flight d ref)
          = Success \<lparr> refund_amount = total_price booking,
                      refund_currency = booking_currency booking \<rparr>
        \<and> select_booking_with_flight (snd (cancel_flight d ref)) ref
          = map (\<lambda>(b, g). (b\<lparr>booking_status := ''CANCELLED''\<rparr>,
                     if flight_id g = flight_id f
                     then g\<lparr>available_seats := available_seats g + passenger_count booking\<rparr>
                     else g))
              (select_booking_with_flight d ref)
        \<and> select_flights (snd (cancel_flight d ref)) (flight_id f)
          = map (\<lambda>g. g\<lparr>available_seats := available_seats g + passenger_count booking\<rparr>)
              (select_flights d (flight_id f)))
   \<and> (select_booking_with_flight d ref = (booking, f) # others
      \<and> booking_status booking = ''CANCELLED'' \<longrightarrow>
        cancel_flight d ref = (Failure ''Booking already cancelled'', d))
   \<and> (ref \<notin> set (map booking_reference (flight_bookings d)) \<longrightarrow>
        cancel_flight d ref = (Failure ''Booking not found'', d))"
proof (intro conjI impI)
  assume "ref \<notin> set (map booking_reference (flight_bookings d))"
  then have "filter (\<lambda>b. booking_reference b = ref) (flight_bookings d) = []"
    by (auto simp: filter_empty_conv)
  then show "cancel_flight d ref = (Failure ''Booking not found'', d)"
    by (simp add: cancel_flight_def select_booking_with_flight_def)
next
  assume "select_booking_with_flight d ref = (booking, f) # others \<and> booking_status booking = ''CANCELLED''"
  then show "cancel_flight d ref = (Failure ''Booking already cancelled'', d)"
    by (simp add: cancel_flight_def)
next
  assume a: "select_booking_with_flight d ref = (booking, f) # others \<and> booking_status booking = ''CONFIRMED''"
  then have c: "cancel_flight d ref = (Success \<lparr> refund_amount = total_price booking,
                      refund_currency = booking_currency booking \<rparr>, 
                      add_seats (passenger_count booking) (flight_id f) (mark_cancelled ref d))"
    by (simp add: cancel_flight_def Let_def)
  show "fst (cancel_flight d ref)
          = Success \<lparr> refund_amount = total_price booking,
                      refund_currency = booking_currency booking \<rparr>"
    by (simp add: c)
  show "select_booking_with_flight (snd (cancel_flight d ref)) ref
          = map (\<lambda>(b, g). (b\<lparr>booking_status := ''CANCELLED''\<rparr>,
                     if flight_id g = flight_id f
                     then g\<lparr>available_seats := available_seats g + passenger_count booking\<rparr>
                     else g))
              (select_booking_with_flight d ref)"
    by (simp add: c select_booking_after_cancel)
  show "select_flights (snd (cancel_flight d ref)) (flight_id f)
          = map (\<lambda>g. g\<lparr>available_seats := available_seats g + passenger_count booking\<rparr>)
              (select_flights d (flight_id f))"
    by (simp add: c select_flights_add_seats_same)
qed

theorem cancel_flight_cases_witness:
  "select_booking_with_flight example_db ''FL20240201001'' = [(booking_confirmed, flight_aa100)]
   \<and> booking_status booking_confirmed = ''CONFIRMED''
   \<and> fst (cancel_flight example_db ''FL20240201001'')
       = Success \<lparr> refund_amount = Finite (1319369972866089 / 2199023255552), refund_currency = Some ''USD'' \<rparr>
   \<and> map (\<lambda>(b, g). (booking_status b, available_seats g))
        (select_booking_with_flight (snd (cancel_flight example_db ''FL20240201001'')) ''FL20240201001'')
       = [(''CANCELLED'', 152)]
   \<and> select_booking_with_flight example_db ''FL20240201002'' = [(booking_cancelled, flight_dl200)]
   \<and> booking_status booking_cancelled = ''CANCELLED''
   \<and> cancel_flight example_db ''FL20240201002'' = (Failure ''Booking already cancelled'', example_db)
   \<and> ''FL0'' \<notin> set (map booking_reference (flight_bookings example_db))
   \<and> cancel_flight example_db ''FL0'' = (Failure ''Booking not found'', example_db)"
proof -
  have h1: "select_booking_with_flight example_db ''FL20240201001'' = [(booking_confirmed, flight_aa100)]"
    by (simp add: example_defs select_booking_with_flight_def)
  have h2: "booking_status booking_confirmed = ''CONFIRMED''"
    by (simp add: example_defs select_booking_with_flight_def)
  have h3: "select_booking_with_flight example_db ''FL20240201002'' = [(booking_cancelled, flight_dl200)]"
    by (simp add: example_defs select_booking_with_flight_def)
  have h4: "booking_status booking_cancelled = ''CANCELLED''"
    by (simp add: example_defs select_booking_with_flight_def)
  have h5: "''FL0'' \<notin> set (map booking_reference (flight_bookings example_db))"
    by (simp add: example_defs select_booking_with_flight_def)
  have v: "total_price booking_confirmed = Finite (1319369972866089 / 2199023255552)" "booking_currency booking_confirmed = Some ''USD''"
     "passenger_count booking_confirmed = 2" "available_seats flight_aa100 = 150"
    by (simp_all add: example_defs select_booking_with_flight_def)
  from h1 h2 cancel_flight_cases [of example_db "''FL20240201001''" booking_confirmed flight_aa100 "[]"]
  have r1: "fst (cancel_flight example_db ''FL20240201001'')
          = Success \<lparr> refund_amount = total_price booking_confirmed,
                      refund_currency = booking_currency booking_confirmed \<rparr>
        \<and> select_booking_with_flight (snd (cancel_flight example_db ''FL20240201001'')) ''FL20240201001''
          = map (\<lambda>(b, g). (b\<lparr>booking_status := ''CANCELLED''\<rparr>,
                     if flight_id g = flight_id flight_aa100
                     then g\<lparr>available_seats := available_seats g + passenger_count booking_confirmed\<rparr>
                     else g))
              (select_booking_with_flight example_db ''FL20240201001'')"
    by blast
  from h3 h4 cancel_flight_cases [of example_db "''FL20240201002''" booking_cancelled flight_dl200 "[]"]
  have r2: "cancel_flight example_db ''FL20240201002'' = (Failure ''Booking already cancelled'', example_db)"
    by blast
  from h5 cancel_flight_cases [of example_db "''FL0''" booking_cancelled flight_dl200 "[]"]
  have r3: "cancel_flight example_db ''FL0'' = (Failure ''Booking not found'', example_db)"
    by blast
  from h5 show ?thesis
    by (simp add: r1 r2 r3 h1 h2 h3 h4 v)
qed

subsection \<open>The request classifier\<close>

text \<open>
  C6. With \<open>t\<close> the lowercased request text: if \<open>t\<close> contains \<open>hotel\<close> and \<open>stay\<close>
  and no keyword of the flight, car or planning vocabularies, the required agents are
  exactly the hotel agent and the request type is \<open>hotel\<close>; if \<open>t\<close> contains a flight
  keyword and a hotel keyword, both the flight agent and the hotel agent are required and
  the request type is \<open>multi-service\<close>; if \<open>t\<close> matches no vocabulary, the required
  agents are exactly the travel planner and the request type is \<open>planning\<close>.
\<close>

theorem analyze_travel_request_classes:
  fixes user_request :: string
  defines "t \<equiv> lower user_request"
  defines "r \<equiv> analyze_travel_request user_request"
  shows
    "(contains t ''hotel'' \<and> contains t ''stay'' \<and> \<not> any_keyword t flight_keywords
        \<and> \<not> any_keyword t car_keywords \<and> \<not> any_keyword t planning_keywords
      \<longrightarrow> required_agents r = [''hotel-booking-agent''] \<and> request_type r = ''hotel'')
     \<and> (any_keyword t flight_keywords \<and> any_keyword t hotel_keywords
      \<longrightarrow> ''flight-booking-agent'' \<in> set (required_agents r)
          \<and> ''hotel-booking-agent'' \<in> set (required_agents r)
          \<and> request_type r = ''multi-service'')
     \<and> (\<not> any_keyword t flight_keywords \<and> \<not> any_keyword t hotel_keywords
        \<and> \<not> any_keyword t car_keywords \<and> \<not> any_keyword t planning_keywords
      \<longrightarrow> required_agents r = [''travel-planner-agent''] \<and> request_type r = ''planning'')"
  unfolding t_def r_def
  apply (simp add: analyze_travel_request_def classify_def check_domain_def Let_def
           split: prod.splits)
  apply (auto simp: any_keyword_def hotel_keywords_def)
  done

theorem analyze_travel_request_classes_witness:
  "(contains (lower ''Hotel STAY'') ''hotel'' \<and> contains (lower ''Hotel STAY'') ''stay''
      \<and> \<not> any_keyword (lower ''Hotel STAY'') flight_keywords
      \<and> \<not> any_keyword (lower ''Hotel STAY'') car_keywords
      \<and> \<not> any_keyword (lower ''Hotel STAY'') planning_keywords)
   \<and> required_agents (analyze_travel_request ''Hotel STAY'') = [''hotel-booking-agent'']
   \<and> request_type (analyze_travel_request ''Hotel STAY'') = ''hotel''
   \<and> (any_keyword (lower ''Fly, room'') flight_keywords
      \<and> any_keyword (lower ''Fly, room'') hotel_keywords)
   \<and> ''flight-booking-agent'' \<in> set (required_agents (analyze_travel_request ''Fly, room''))
   \<and> ''hotel-booking-agent'' \<in> set (required_agents (analyze_travel_request ''Fly, room''))
   \<and> request_type (analyze_travel_request ''Fly, room'') = ''multi-service''
   \<and> (\<not> any_keyword (lower ''Hello'') flight_keywords
      \<and> \<not> any_keyword (lower ''Hello'') hotel_keywords
      \<and> \<not> any_keyword (lower ''Hello'') car_keywords
      \<and> \<not> any_keyword (lower ''Hello'') planning_keywords)
   \<and> required_agents (analyze_travel_request ''Hello'') = [''travel-planner-agent'']
   \<and> request_type (analyze_travel_request ''Hello'') = ''planning''"
proof -
  have h1: "contains (lower ''Hotel STAY'') ''hotel'' \<and> contains (lower ''Hotel STAY'') ''stay''
      \<and> \<not> any_keyword (lower ''Hotel STAY'') flight_keywords
      \<and> \<not> any_keyword (lower ''Hotel STAY'') car_keywords
      \<and> \<not> any_keyword (lower ''Hotel STAY'') planning_keywords"
    by code_simp
  have h2: "any_keyword (lower ''Fly, room'') flight_keywords
      \<and> any_keyword (lower ''Fly, room'') hotel_keywords"
    by code_simp
  have h3: "\<not> any_keyword (lower ''Hello'') flight_keywords
      \<and> \<not> any_keyword (lower ''Hello'') hotel_keywords
      \<and> \<not> any_keyword (lower ''Hello'') car_keywords
      \<and> \<not> any_keyword (lower ''Hello'') planning_keywords"
    by code_simp
  from h1 h2 h3
    analyze_travel_request_classes [of "''Hotel STAY''"]
    analyze_travel_request_classes [of "''Fly, room''"]
    analyze_travel_request_classes [of "''Hello''"]
  show ?thesis by blast
qed

subsection \<open>Evaluating the parsers and the example data\<close>

lemmas parse_defs =
  strptime_datetime_def strptime_date_def year_month_prefix_def time_of_day_def day_field_def
  number_field_def digits_value_def is_digit_def is_space_def make_date_def days_in_month_def
  is_leap_def Let_def

lemmas ordinal_defs =
  timedelta_days_def toordinal_def days_before_year_def days_before_month_def days_in_month_def
  is_leap_def upt_rec

lemmas example_more_defs =
  hotel_plaza_def room_standard_king_def vehicle_versa_def vehicle_focus_def
  select_room_types_def select_vehicles_def

subsection \<open>Booking a rental car\<close>

lemma floor_days:
  "(x * 86400 + y) div 86400 = x + y div (86400::int)"
  by simp

lemma parse_example_pickup:
  "strptime_datetime ''2024-02-15 10:00:00''
     = Inr \<lparr> date_part = \<lparr> year = 2024, month = 2, day = 15 \<rparr>, second_of_day = 36000 \<rparr>"
  by (simp add: parse_defs)

lemma parse_example_dropoff:
  "strptime_datetime ''2024-02-18 10:00:00''
     = Inr \<lparr> date_part = \<lparr> year = 2024, month = 2, day = 18 \<rparr>, second_of_day = 36000 \<rparr>"
  by (simp add: parse_defs)

lemma example_rental_days:
  "timedelta_days
     \<lparr> date_part = \<lparr> year = 2024, month = 2, day = 15 \<rparr>, second_of_day = 36000 \<rparr>
     \<lparr> date_part = \<lparr> year = 2024, month = 2, day = 18 \<rparr>, second_of_day = 36000 \<rparr> = 3"
  by (simp add: ordinal_defs)

lemma select_vehicles_mark_rented:
  "select_vehicles (mark_rented vid d) vid
     = map (\<lambda>v. v\<lparr>availability_status := ''RENTED''\<rparr>) (select_vehicles d vid)"
proof -
  have "filter (\<lambda>v. vehicle_id v = vid)
          (map (\<lambda>v. if vehicle_id v = vid then v\<lparr>availability_status := ''RENTED''\<rparr> else v) xs)
        = map (\<lambda>v. v\<lparr>availability_status := ''RENTED''\<rparr>) (filter (\<lambda>v. vehicle_id v = vid) xs)"
    for xs
    by (induction xs) auto
  then show ?thesis
    by (simp add: select_vehicles_def mark_rented_def)
qed

subsection \<open>Cancelling a car rental\<close>

text \<open>
  C8. Whenever the request carries a \<open>booking_id\<close> parameter, whatever its value
  and whatever the store holds, \<open>handle_cancel_rental\<close> reports success with refund
  amount 0 and cancellation fees 0, and the store it was given, every table of it, is the
  store afterwards.
\<close>

theorem cancel_rental_is_stub:
  assumes "ps ''booking_id'' = Some booking"
  shows
    "json_path (fst (handle_cancel_rental e d ps)) [''success''] = Some (JBool True)
     \<and> json_path (fst (handle_cancel_rental e d ps)) [''cancellation_status'', ''refund_amount'']
         = Some (JNum 0)
     \<and> json_path (fst (handle_cancel_rental e d ps)) [''cancellation_status'', ''cancellation_fees'']
         = Some (JNum 0)
     \<and> snd (handle_cancel_rental e d ps) = d"
  using assms by (simp add: handle_cancel_rental_def missing_param_def Let_def)

theorem cancel_rental_is_stub_witness:
  "build_params cancel_rental_params ''booking_id'' = Some (PText ''CR999'')
   \<and> car_rental_bookings example_db = []
   \<and> json_path (fst (handle_cancel_rental example_env example_db (build_params cancel_rental_params)))
        [''success''] = Some (JBool True)
   \<and> json_path (fst (handle_cancel_rental example_env example_db (build_params cancel_rental_params)))
        [''cancellation_status'', ''refund_amount''] = Some (JNum 0)
   \<and> json_path (fst (handle_cancel_rental example_env example_db (build_params cancel_rental_params)))
        [''cancellation_status'', ''cancellation_fees''] = Some (JNum 0)
   \<and> snd (handle_cancel_rental example_env example_db (build_params cancel_rental_params))
       = example_db"
proof -
  have h: "build_params cancel_rental_params ''booking_id'' = Some (PText ''CR999'')"
    by (simp add: build_params_def cancel_rental_params_def)
  have v: "car_rental_bookings example_db = []"
    by (simp add: example_db_def)
  from cancel_rental_is_stub
         [of "build_params cancel_rental_params" "PText ''CR999''" example_env example_db] h v
  show ?thesis by simp
qed

subsection \<open>The response envelope of the flight booking agent\<close>

text \<open>
  C7. For every event, every environment and every outcome of opening the store, the
  envelope returned by \<open>lambda_handler\<close> carries the event's \<open>sessionAttributes\<close>
  and \<open>promptSessionAttributes\<close> as they came (the empty map where the event has
  none), on the path through the handlers and on the outermost error path alike.
\<close>

theorem lambda_handler_echoes_session:
  "response_sessionAttributes (fst (lambda_handler e store ev))
     = get_or (sessionAttributes ev) (JObj [])
   \<and> response_promptSessionAttributes (fst (lambda_handler e store ev))
     = get_or (promptSessionAttributes ev) (JObj [])"
  by (cases store) (simp_all add: lambda_handler_def Let_def split: prod.splits)

theorem lambda_handler_echoes_session_witness:
  "response_sessionAttributes (fst (lambda_handler example_env (Inr example_db) search_event))
     = session_map
   \<and> response_promptSessionAttributes
       (fst (lambda_handler example_env (Inr example_db) search_event)) = prompt_map
   \<and> response_sessionAttributes
       (fst (lambda_handler example_env (Inl (OtherError ''download failed''))
               (search_event\<lparr>promptSessionAttributes := None\<rparr>)))
     = session_map
   \<and> response_promptSessionAttributes
       (fst (lambda_handler example_env (Inl (OtherError ''download failed''))
               (search_event\<lparr>promptSessionAttributes := None\<rparr>)))
     = JObj []"
proof -
  have v: "sessionAttributes search_event = Some session_map"
          "promptSessionAttributes search_event = Some prompt_map"
    by (simp_all add: search_event_def)
  from lambda_handler_echoes_session [of example_env "Inr example_db" search_event]
       lambda_handler_echoes_session [of example_env "Inl (OtherError ''download failed'')"
         "search_event\<lparr>promptSessionAttributes := None\<rparr>"]
  show ?thesis
    by (simp add: v get_or_def)
qed

subsection \<open>Searching flights with no matching row\<close>

lemma example_airports:
  "select_airports example_db ''JFK''
     = [\<lparr> airport_id = 1, airport_code = ''JFK'', city = ''New York'' \<rparr>]"
  "select_airports example_db ''LAX''
     = [\<lparr> airport_id = 2, airport_code = ''LAX'', city = ''Los Angeles'' \<rparr>]"
  by code_simp+

lemma example_no_march_flights:
  "select_flight_rows example_env example_db 1 2 (Some ''2024-03-01'') 2 = []"
  by (simp add: select_flight_rows_def example_defs same_date_def iso_date_part_def)

lemma example_search_params:
  "missing_param (build_params search_march_params)
     [''origin'', ''destination'', ''departure_date'', ''passengers''] = None"
  "param_get (build_params search_march_params) ''origin'' = PText ''JFK''"
  "param_get (build_params search_march_params) ''destination'' = PText ''LAX''"
  "param_get (build_params search_march_params) ''departure_date'' = PText ''2024-03-01''"
  "param_get (build_params search_march_params) ''return_date'' = PNone"
  "param_get (build_params search_march_params) ''passengers'' = PText ''2''"
  by (simp_all add: missing_param_def build_params_def search_march_params_def param_get_def)

lemma example_two: "int_literal ''2'' = Some 2"
  by (simp add: int_literal_def strip_def is_int_space_def unsigned_literal_def is_digit_def
        digits_value_def)

text \<open>
  C3 does not hold of the code. Searching JFK to LAX on 2024-03-01, a date on which the
  example store has no flight, both airports resolve and no row matches; the handler
  answers \<open>success: true\<close> with two empty lists, not a \<open>no_results\<close> failure.
  \<open>search_flights\<close> returns a dictionary of two lists in this case, which is never
  empty, so the handler's test \<open>not search_results\<close> does not fire.
\<close>

theorem search_without_matches_is_success:
  "handle_search_flights example_env example_db (build_params search_march_params)
     = JObj [(''success'', JBool True),
             (''search_criteria'',
                JObj [(''origin'', JStr ''JFK''), (''destination'', JStr ''LAX''),
                      (''departure_date'', JStr ''2024-03-01''), (''return_date'', JNull),
                      (''passengers'', JInt 2)]),
             (''outbound_flights'', JList []),
             (''return_flights'', JList [])]"
  by (simp add: handle_search_flights_def search_flights_body_def search_flights_def
        example_search_params example_two example_airports example_no_march_flights
        format_flight_list_def Let_def)

text \<open>
  More generally, once origin and destination resolve to an airport, the handler never
  answers with error type \<open>no_results\<close>.
\<close>

lemma resolved_airports_never_no_results:
  assumes "select_airports d origin_text \<noteq> []" and "select_airports d destination_text \<noteq> []"
    and "ps ''origin'' = Some (PText origin_text)"
    and "ps ''destination'' = Some (PText destination_text)"
  shows "json_path (handle_search_flights e d ps) [''error_type''] \<noteq> Some (JStr ''no_results'')"
proof -
  obtain o1 os d1 ds where r: "select_airports d origin_text = o1 # os"
      "select_airports d destination_text = d1 # ds"
    using assms(1,2) by (cases "select_airports d origin_text"; cases "select_airports d destination_text") auto
  have g: "param_get ps ''origin'' = PText origin_text" "param_get ps ''destination'' = PText destination_text"
    using assms(3,4) by (simp_all add: param_get_def)
  have s: "search_flights e d (PText origin_text) (PText destination_text) dep ret n \<noteq> Inr EmptyList" for dep ret n
    by (simp add: search_flights_def r Let_def split: sum.splits)
  show ?thesis
    apply (simp add: handle_search_flights_def search_flights_body_def g Let_def failure_json_def
            split: option.splits sum.splits search_result.splits)
    using s apply auto
    done
qed

end
